theory Spec2Isabelle
  imports Complex_Main "HOL-Library.Word"
begin

section \<open>Failures\<close>

text \<open>
  A call either returns a value or stops. Three ways of stopping are kept apart:
  a violated \<^verbatim>\<open>MANIF_CHECK\<close>, the \<^verbatim>\<open>MANIF_NOT_IMPLEMENTED_YET\<close> marker, and an
  operation for which C++ defines no behaviour (an out-of-range \<^verbatim>\<open>operator[]\<close>, the
  conversion of a non-finite or too large \<^verbatim>\<open>double\<close> to \<^verbatim>\<open>unsigned int\<close>, a signed
  counter that overflows).
\<close>

datatype failure = Check_Failed | Not_Implemented_Yet | Undefined_Behaviour

text \<open>
  Modelled from the spec: the macro \<^verbatim>\<open>MANIF_CHECK\<close> is defined in a header that is not
  among the sources. The spec calls a violated check a fatal precondition failure that
  ends the call at once and returns no partial result.
\<close>

definition MANIF_CHECK :: "bool \<Rightarrow> failure + 'a \<Rightarrow> failure + 'a" where
  "MANIF_CHECK cond continue = (if cond then continue else Inl Check_Failed)"

text \<open>
  Modelled from the spec: the macro \<^verbatim>\<open>MANIF_NOT_IMPLEMENTED_YET\<close> is defined in the same
  missing header. The spec calls it an explicit "not yet available" failure, told apart
  from a precondition failure.
\<close>

definition MANIF_NOT_IMPLEMENTED_YET :: "failure + 'a" where
  "MANIF_NOT_IMPLEMENTED_YET = Inl Not_Implemented_Yet"

section \<open>Machine integers and vectors\<close>

text \<open>
  \<^verbatim>\<open>unsigned int\<close> is 32 bits wide, \<^verbatim>\<open>int\<close> is its two's complement reading and
  \<^verbatim>\<open>size_t\<close> is 64 bits wide. The parameters \<^verbatim>\<open>degree\<close> and \<^verbatim>\<open>k_interp\<close> are words;
  the counters are natural numbers and integers with every conversion written out.
  A \<^verbatim>\<open>double\<close> is read as the real number it stands for.
\<close>

type_synonym uint = "32 word"

definition to_unsigned :: "int \<Rightarrow> nat" where
  "to_unsigned i = nat (i mod 2 ^ 32)"

definition to_int :: "int \<Rightarrow> int" where
  "to_int i = (i + 2 ^ 31) mod 2 ^ 32 - 2 ^ 31"

definition to_size_t :: "int \<Rightarrow> nat" where
  "to_size_t i = nat (i mod 2 ^ 64)"

text \<open>\<^verbatim>\<open>v[i]\<close> on a \<^verbatim>\<open>std::vector\<close>: defined only inside the vector.\<close>

definition subscript :: "'a list \<Rightarrow> nat \<Rightarrow> failure + 'a" where
  "subscript v i = (if i < length v then Inr (v ! i) else Inl Undefined_Behaviour)"

text \<open>
  A counted loop whose body appends one element to a vector: the bodies run in order
  and the first failure ends the loop.
\<close>

fun for_each :: "('a \<Rightarrow> failure + 'b) \<Rightarrow> 'a list \<Rightarrow> failure + 'b list" where
  "for_each body [] = Inr []"
| "for_each body (i # is) =
     (case body i of
        Inl e \<Rightarrow> Inl e
      | Inr y \<Rightarrow> (case for_each body is of Inl e \<Rightarrow> Inl e | Inr ys \<Rightarrow> Inr (y # ys)))"

section \<open>Curve fitting: \<^verbatim>\<open>decasteljau\<close>\<close>

text \<open>
  \<^verbatim>\<open>n_segments = std::floor(double(trajectory.size()-degree)/(degree-1)+1)\<close>.
  The numerator is computed in \<^verbatim>\<open>size_t\<close>, the denominator in \<^verbatim>\<open>unsigned int\<close>, where
  \<^verbatim>\<open>degree-1\<close> wraps around at \<^verbatim>\<open>degree = 0\<close>. A zero denominator makes the quotient
  infinite or not a number, and then the conversion to \<^verbatim>\<open>unsigned int\<close> is undefined;
  so is the conversion of a value that does not fit.
\<close>

definition n_segments :: "nat \<Rightarrow> uint \<Rightarrow> failure + nat" where
  "n_segments len degree =
     (let num = to_size_t (int len - int (unat degree));
          den = unat (degree - 1)
      in if den = 0 then Inl Undefined_Behaviour
         else let v = \<lfloor>real num / real den + 1\<rfloor>
              in if v < 2 ^ 32 then Inr (nat v) else Inl Undefined_Behaviour)"

text \<open>
  Lines 39 to 49: segment \<^verbatim>\<open>t\<close> takes \<^verbatim>\<open>trajectory[t*(degree-1)+n]\<close> for
  \<^verbatim>\<open>n = 0, ..., degree-1\<close>; the index is computed in \<^verbatim>\<open>unsigned int\<close>.
\<close>

definition full_segments :: "'m list \<Rightarrow> uint \<Rightarrow> nat \<Rightarrow> failure + 'm list list" where
  "full_segments trajectory degree nseg =
     for_each
       (\<lambda>t. for_each (\<lambda>n. subscript trajectory ((t * unat (degree - 1) + n) mod 2 ^ 32))
              [0..<unat degree])
       [0..<nseg]"

text \<open>\<^verbatim>\<open>const int last_pts_idx = (n_segments)*(degree-1)\<close>: an unsigned product, read as \<^verbatim>\<open>int\<close>.\<close>

definition last_pts_idx :: "nat \<Rightarrow> uint \<Rightarrow> int" where
  "last_pts_idx nseg degree = to_int (int ((nseg * unat (degree - 1)) mod 2 ^ 32))"

text \<open>
  Lines 53 to 69. The comparison \<^verbatim>\<open>last_pts_idx <= trajectory.size()-1\<close> and the
  subtraction \<^verbatim>\<open>trajectory.size()-1-last_pts_idx\<close> are done in \<^verbatim>\<open>size_t\<close>; the bound
  \<^verbatim>\<open>degree-left_over-1\<close> of the second loop is done in \<^verbatim>\<open>unsigned int\<close>. The result is
  the list of the segments added: none or one.
\<close>

definition closing_segment :: "'m list \<Rightarrow> uint \<Rightarrow> nat \<Rightarrow> bool \<Rightarrow> failure + 'm list list" where
  "closing_segment trajectory degree nseg closed_curve =
     (let lpi = last_pts_idx nseg degree in
      if closed_curve \<and> to_size_t lpi \<le> to_size_t (int (length trajectory) - 1) then
        let left_over = to_int (int (to_size_t (int (length trajectory) - 1 - lpi)))
        in case for_each (subscript trajectory) [nat lpi..<length trajectory] of
             Inl e \<Rightarrow> Inl e
           | Inr trailing \<Rightarrow>
               (case for_each (subscript trajectory)
                       [0..<to_unsigned (int (unat degree) - left_over - 1)] of
                  Inl e \<Rightarrow> Inl e
                | Inr leading \<Rightarrow> Inr [trailing @ leading])
      else Inr [])"

text \<open>
  \<^verbatim>\<open>const int segment_k_interp = (degree == 2) ? k_interp : k_interp * degree\<close>:
  an unsigned product, read as \<^verbatim>\<open>int\<close>.
\<close>

definition segment_k_interp :: "uint \<Rightarrow> uint \<Rightarrow> int" where
  "segment_k_interp degree k_interp =
     to_int (int (unat (if degree = 2 then k_interp else k_interp * degree)))"

text \<open>
  The manifold is the template parameter: its operations \<^verbatim>\<open>rplus\<close>, \<^verbatim>\<open>rminus\<close> and the
  product of a tangent with a scalar are parameters of the model.
  \<^verbatim>\<open>Qs[q].rplus(Qs[q+1].rminus(Qs[q]) * t_01)\<close>:
\<close>

definition blend :: "('m \<Rightarrow> 'v \<Rightarrow> 'm) \<Rightarrow> ('m \<Rightarrow> 'm \<Rightarrow> 'v) \<Rightarrow> ('v \<Rightarrow> real \<Rightarrow> 'v) \<Rightarrow> real \<Rightarrow> 'm \<Rightarrow> 'm \<Rightarrow> 'm" where
  "blend rplus rminus scale t_01 Q Q' = rplus Q (scale (rminus Q' Q) t_01)"

text \<open>
  Lines 90 to 96, one round: \<^verbatim>\<open>q\<close> runs while \<^verbatim>\<open>q < Qs.size()-1\<close>, a bound computed in
  \<^verbatim>\<open>size_t\<close>, so that on an empty \<^verbatim>\<open>Qs\<close> the loop starts and reads \<^verbatim>\<open>Qs[0]\<close>.
\<close>

definition blend_round :: "('m \<Rightarrow> 'm \<Rightarrow> 'm) \<Rightarrow> 'm list \<Rightarrow> failure + 'm list" where
  "blend_round f Qs =
     for_each
       (\<lambda>q. case subscript Qs q of
               Inl e \<Rightarrow> Inl e
             | Inr Q \<Rightarrow> (case subscript Qs (q + 1) of Inl e \<Rightarrow> Inl e | Inr Q' \<Rightarrow> Inr (f Q Q')))
       [0..<to_size_t (int (length Qs) - 1)]"

text \<open>Lines 88 to 97: the rounds, \<^verbatim>\<open>degree-1\<close> of them.\<close>

fun rounds :: "nat \<Rightarrow> ('m list \<Rightarrow> failure + 'm list) \<Rightarrow> 'm list \<Rightarrow> failure + 'm list" where
  "rounds 0 step Qs = Inr Qs"
| "rounds (Suc i) step Qs =
     (case step Qs of Inl e \<Rightarrow> Inl e | Inr Qs' \<Rightarrow> rounds i step Qs')"

text \<open>Lines 83 to 99: one sample of one segment, \<^verbatim>\<open>curve.push_back(Qs[0])\<close>.\<close>

definition sample :: "('m \<Rightarrow> 'm \<Rightarrow> 'm) \<Rightarrow> uint \<Rightarrow> 'm list \<Rightarrow> failure + 'm" where
  "sample f degree segment =
     (case rounds (unat (degree - 1)) (blend_round f) segment of
        Inl e \<Rightarrow> Inl e
      | Inr Qs \<Rightarrow> subscript Qs 0)"

text \<open>
  Lines 78 to 100: \<^verbatim>\<open>t\<close> runs from 1 while \<^verbatim>\<open>t <= segment_k_interp\<close>, and
  \<^verbatim>\<open>t_01 = double(t)/segment_k_interp\<close>. With \<^verbatim>\<open>segment_k_interp\<close> the largest \<^verbatim>\<open>int\<close>
  the last \<^verbatim>\<open>++t\<close> overflows.
\<close>

definition fit_segment ::
  "('m \<Rightarrow> 'v \<Rightarrow> 'm) \<Rightarrow> ('m \<Rightarrow> 'm \<Rightarrow> 'v) \<Rightarrow> ('v \<Rightarrow> real \<Rightarrow> 'v) \<Rightarrow> uint \<Rightarrow> int \<Rightarrow> 'm list \<Rightarrow> failure + 'm list" where
  "fit_segment rplus rminus scale degree sk segment =
     (if sk = 2 ^ 31 - 1 then Inl Undefined_Behaviour
      else for_each
             (\<lambda>t. sample (blend rplus rminus scale (real_of_int t / real_of_int sk)) degree segment)
             [1..sk])"

text \<open>Lines 36 to 69: the control points of all segments, the closing one last.\<close>

definition segments_control_points :: "'m list \<Rightarrow> uint \<Rightarrow> bool \<Rightarrow> failure + 'm list list" where
  "segments_control_points trajectory degree closed_curve =
     (case n_segments (length trajectory) degree of
        Inl e \<Rightarrow> Inl e
      | Inr nseg \<Rightarrow>
          (case full_segments trajectory degree nseg of
             Inl e \<Rightarrow> Inl e
           | Inr segs \<Rightarrow>
               (case closing_segment trajectory degree nseg closed_curve of
                  Inl e \<Rightarrow> Inl e
                | Inr closing \<Rightarrow> Inr (segs @ closing))))"

definition decasteljau ::
  "('m \<Rightarrow> 'v \<Rightarrow> 'm) \<Rightarrow> ('m \<Rightarrow> 'm \<Rightarrow> 'v) \<Rightarrow> ('v \<Rightarrow> real \<Rightarrow> 'v) \<Rightarrow> 'm list \<Rightarrow> uint \<Rightarrow> uint \<Rightarrow> bool \<Rightarrow> failure + 'm list" where
  "decasteljau rplus rminus scale trajectory degree k_interp closed_curve =
     MANIF_CHECK (length trajectory > 2)
    (MANIF_CHECK (unat degree \<le> length trajectory)
    (MANIF_CHECK (k_interp > 0)
      (case segments_control_points trajectory degree closed_curve of
         Inl e \<Rightarrow> Inl e
       | Inr segs \<Rightarrow>
           (case for_each
                   (fit_segment rplus rminus scale degree (segment_k_interp degree k_interp))
                   segs of
              Inl e \<Rightarrow> Inl e
            | Inr curves \<Rightarrow> Inr (concat curves)))))"

section \<open>The curve in the words of the specification\<close>

text \<open>
  The definitions of this section follow the specification, not the code: the theorems
  below compare them with \<^verbatim>\<open>decasteljau\<close> as translated above.

  The number of segments, \<^verbatim>\<open>floor((len - degree)/(degree - 1) + 1)\<close>, over the reals.
\<close>

definition spec_n_segments :: "nat \<Rightarrow> nat \<Rightarrow> int" where
  "spec_n_segments len d = \<lfloor>(real len - real d) / (real d - 1) + 1\<rfloor>"

text \<open>Window \<^verbatim>\<open>s\<close>: \<^verbatim>\<open>d\<close> consecutive control points, the windows advancing by \<^verbatim>\<open>d - 1\<close>.\<close>

definition spec_window :: "'m list \<Rightarrow> nat \<Rightarrow> nat \<Rightarrow> 'm list" where
  "spec_window trajectory d s = take d (drop (s * (d - 1)) trajectory)"

text \<open>
  The points that remain unconsumed after the last full window: those behind its end
  point, which has the index \<^verbatim>\<open>nseg * (d - 1)\<close>.
\<close>

definition spec_unconsumed_points :: "'m list \<Rightarrow> nat \<Rightarrow> nat \<Rightarrow> 'm list" where
  "spec_unconsumed_points trajectory d nseg = drop (nseg * (d - 1) + 1) trajectory"

text \<open>
  What the code gathers under its comment \<^verbatim>\<open>Get the left-over points\<close>: the points from
  the end point of the last full window on, that end point included; and the wrap-around
  segment made of them and of as many leading points as it takes to reach \<^verbatim>\<open>d\<close>
  control points.
\<close>

definition spec_leftover_points :: "'m list \<Rightarrow> nat \<Rightarrow> nat \<Rightarrow> 'm list" where
  "spec_leftover_points trajectory d nseg = drop (nseg * (d - 1)) trajectory"

definition spec_wrap_around_segment :: "'m list \<Rightarrow> nat \<Rightarrow> nat \<Rightarrow> 'm list" where
  "spec_wrap_around_segment trajectory d nseg =
     spec_leftover_points trajectory d nseg
     @ take (d - length (spec_leftover_points trajectory d nseg)) trajectory"

definition spec_segments :: "'m list \<Rightarrow> nat \<Rightarrow> bool \<Rightarrow> 'm list list" where
  "spec_segments trajectory d closed_curve =
     (let nseg = nat (spec_n_segments (length trajectory) d)
      in map (spec_window trajectory d) [0..<nseg]
         @ (if closed_curve then [spec_wrap_around_segment trajectory d nseg] else []))"

text \<open>One round: every adjacent pair is replaced by one blended point.\<close>

fun spec_round :: "('m \<Rightarrow> 'm \<Rightarrow> 'm) \<Rightarrow> 'm list \<Rightarrow> 'm list" where
  "spec_round f (Q # Q' # Qs) = f Q Q' # spec_round f (Q' # Qs)"
| "spec_round f Qs = []"

text \<open>
  The point of a segment at one sample parameter: the head of what \<^verbatim>\<open>n\<close> rounds leave
  (the theorems show that \<^verbatim>\<open>degree - 1\<close> rounds leave exactly one point), and the samples
  of a segment at \<^verbatim>\<open>i/sk\<close> for \<^verbatim>\<open>i = 1, ..., sk\<close>.
\<close>

definition spec_point :: "('m \<Rightarrow> 'm \<Rightarrow> 'm) \<Rightarrow> nat \<Rightarrow> 'm list \<Rightarrow> 'm" where
  "spec_point f n Qs = hd ((spec_round f ^^ n) Qs)"

definition spec_samples :: "(real \<Rightarrow> 'm \<Rightarrow> 'm \<Rightarrow> 'm) \<Rightarrow> nat \<Rightarrow> int \<Rightarrow> 'm list \<Rightarrow> 'm list" where
  "spec_samples interpolate n sk segment =
     map (\<lambda>i. spec_point (interpolate (real_of_int i / real_of_int sk)) n segment) [1..sk]"

section \<open>Vectors and matrices\<close>

text \<open>
  The linear algebra (fixed-size vectors and matrices, their products, the inverse of a
  matrix) is an external library. It is modelled over the reals: a 3-vector is a triple,
  a \<open>3 \<times> 3\<close> matrix is the triple of its rows.
\<close>

type_synonym vec3 = "real \<times> real \<times> real"

type_synonym mat3 = "vec3 \<times> vec3 \<times> vec3"

fun vec_add :: "vec3 \<Rightarrow> vec3 \<Rightarrow> vec3" where
  "vec_add (a, b, c) (x, y, z) = (a + x, b + y, c + z)"

fun vec_neg :: "vec3 \<Rightarrow> vec3" where
  "vec_neg (x, y, z) = (- x, - y, - z)"

fun dot :: "vec3 \<Rightarrow> vec3 \<Rightarrow> real" where
  "dot (a, b, c) (x, y, z) = a * x + b * y + c * z"

fun mat_vec :: "mat3 \<Rightarrow> vec3 \<Rightarrow> vec3" where
  "mat_vec (r0, r1, r2) v = (dot r0 v, dot r1 v, dot r2 v)"

fun mat_transpose :: "mat3 \<Rightarrow> mat3" where
  "mat_transpose ((a, b, c), (d, e, f), (g, h, i)) = ((a, d, g), (b, e, h), (c, f, i))"

fun mat_mul :: "mat3 \<Rightarrow> mat3 \<Rightarrow> mat3" where
  "mat_mul (r0, r1, r2) N =
     (let (c0, c1, c2) = mat_transpose N
      in ((dot r0 c0, dot r0 c1, dot r0 c2),
          (dot r1 c0, dot r1 c1, dot r1 c2),
          (dot r2 c0, dot r2 c1, dot r2 c2)))"

fun mat_add :: "mat3 \<Rightarrow> mat3 \<Rightarrow> mat3" where
  "mat_add (r0, r1, r2) (s0, s1, s2) = (vec_add r0 s0, vec_add r1 s1, vec_add r2 s2)"

fun mat_neg :: "mat3 \<Rightarrow> mat3" where
  "mat_neg (r0, r1, r2) = (vec_neg r0, vec_neg r1, vec_neg r2)"

fun mat_scale :: "real \<Rightarrow> mat3 \<Rightarrow> mat3" where
  "mat_scale s ((a, b, c), (d, e, f), (g, h, i)) =
     ((s * a, s * b, s * c), (s * d, s * e, s * f), (s * g, s * h, s * i))"

text \<open>\<^verbatim>\<open>Zero()\<close> and \<^verbatim>\<open>Identity()\<close>.\<close>

definition mat_zero :: mat3 where
  "mat_zero = ((0, 0, 0), (0, 0, 0), (0, 0, 0))"

definition mat_identity :: mat3 where
  "mat_identity = ((1, 0, 0), (0, 1, 0), (0, 0, 1))"

text \<open>The determinant, and the cross-product matrix of a vector.\<close>

fun det :: "mat3 \<Rightarrow> real" where
  "det ((a, b, c), (d, e, f), (g, h, i)) =
     a * (e * i - f * h) - b * (d * i - f * g) + c * (d * h - e * g)"

fun skew :: "vec3 \<Rightarrow> mat3" where
  "skew (x, y, z) = ((0, - z, y), (z, 0, - x), (- y, x, 0))"

text \<open>
  The \<open>6 \<times> 6\<close> Jacobian of an SE(3) operation, by its four \<open>3 \<times> 3\<close> corner blocks,
  named as the code names them.
\<close>

record Jacobian =
  topLeftCorner :: mat3
  topRightCorner :: mat3
  bottomLeftCorner :: mat3
  bottomRightCorner :: mat3

definition Jacobian_Zero :: Jacobian where
  "Jacobian_Zero = \<lparr>topLeftCorner = mat_zero, topRightCorner = mat_zero,
                    bottomLeftCorner = mat_zero, bottomRightCorner = mat_zero\<rparr>"

definition Jacobian_Identity :: Jacobian where
  "Jacobian_Identity = \<lparr>topLeftCorner = mat_identity, topRightCorner = mat_zero,
                        bottomLeftCorner = mat_zero, bottomRightCorner = mat_identity\<rparr>"

definition Jacobian_neg :: "Jacobian \<Rightarrow> Jacobian" where
  "Jacobian_neg J = \<lparr>topLeftCorner = mat_neg (topLeftCorner J),
                     topRightCorner = mat_neg (topRightCorner J),
                     bottomLeftCorner = mat_neg (bottomLeftCorner J),
                     bottomRightCorner = mat_neg (bottomRightCorner J)\<rparr>"

definition Jacobian_mul :: "Jacobian \<Rightarrow> Jacobian \<Rightarrow> Jacobian" where
  "Jacobian_mul J K =
     \<lparr>topLeftCorner = mat_add (mat_mul (topLeftCorner J) (topLeftCorner K))
                              (mat_mul (topRightCorner J) (bottomLeftCorner K)),
      topRightCorner = mat_add (mat_mul (topLeftCorner J) (topRightCorner K))
                               (mat_mul (topRightCorner J) (bottomRightCorner K)),
      bottomLeftCorner = mat_add (mat_mul (bottomLeftCorner J) (topLeftCorner K))
                                 (mat_mul (bottomRightCorner J) (bottomLeftCorner K)),
      bottomRightCorner = mat_add (mat_mul (bottomLeftCorner J) (topRightCorner K))
                                  (mat_mul (bottomRightCorner J) (bottomRightCorner K))\<rparr>"

text \<open>
  An inverse for the instances below: the adjugate over the determinant for a
  \<open>3 \<times> 3\<close> matrix, block elimination for a Jacobian. The code's own call of
  \<^verbatim>\<open>inverse()\<close> is a parameter of \<^verbatim>\<open>compose\<close>.
\<close>

fun mat_adjugate :: "mat3 \<Rightarrow> mat3" where
  "mat_adjugate ((a, b, c), (d, e, f), (g, h, i)) =
     ((e * i - f * h, c * h - b * i, b * f - c * e),
      (f * g - d * i, a * i - c * g, c * d - a * f),
      (d * h - e * g, b * g - a * h, a * e - b * d))"

definition mat_inverse :: "mat3 \<Rightarrow> mat3" where
  "mat_inverse M = mat_scale (1 / det M) (mat_adjugate M)"

definition Jacobian_inverse :: "Jacobian \<Rightarrow> Jacobian" where
  "Jacobian_inverse J =
     (let A = topLeftCorner J; B = topRightCorner J;
          C = bottomLeftCorner J; D = bottomRightCorner J;
          Ai = mat_inverse A;
          Si = mat_inverse (mat_add D (mat_neg (mat_mul C (mat_mul Ai B))))
      in \<lparr>topLeftCorner = mat_add Ai (mat_mul Ai (mat_mul B (mat_mul Si (mat_mul C Ai)))),
          topRightCorner = mat_neg (mat_mul Ai (mat_mul B Si)),
          bottomLeftCorner = mat_neg (mat_mul Si (mat_mul C Ai)),
          bottomRightCorner = Si\<rparr>)"

text \<open>
  The homogeneous \<open>4 \<times> 4\<close> matrix of a transform, by rows.

  Modelled from the spec: the type \<^verbatim>\<open>Transformation\<close> is declared in a header that is
  not among the sources. The spec has \<^verbatim>\<open>transform()\<close> return a \<open>4 \<times> 4\<close> matrix.
\<close>

type_synonym vec4 = "real \<times> real \<times> real \<times> real"

type_synonym Transformation = "vec4 \<times> vec4 \<times> vec4 \<times> vec4"

section \<open>The rotation group\<close>

text \<open>
  Modelled from the spec: the class of SO(3) elements, which \<^verbatim>\<open>asSO3()\<close> returns, is in
  headers that are not among the sources (\<^verbatim>\<open>SO3_map.h\<close> and what it includes). The
  spec: a rotation is stored as a unit quaternion, 4 scalars; \<^verbatim>\<open>inverse\<close> returns the
  inverse rotation; \<^verbatim>\<open>compose\<close> returns the rotation product, the quaternion product
  renormalised; \<^verbatim>\<open>rotation\<close> is the rotation matrix; the identity is the zero
  rotation. A quaternion is the tuple of its coefficients \<open>(x, y, z, w)\<close>.
\<close>

type_synonym quaternion = "real \<times> real \<times> real \<times> real"

fun squared_norm :: "quaternion \<Rightarrow> real" where
  "squared_norm (x, y, z, w) = x * x + y * y + z * z + w * w"

definition unit_quaternion :: "quaternion \<Rightarrow> bool" where
  "unit_quaternion q \<longleftrightarrow> squared_norm q = 1"

fun quat_mul :: "quaternion \<Rightarrow> quaternion \<Rightarrow> quaternion" where
  "quat_mul (ax, ay, az, aw) (bx, by, bz, bw) =
     (aw * bx + ax * bw + ay * bz - az * by,
      aw * by + ay * bw + az * bx - ax * bz,
      aw * bz + az * bw + ax * by - ay * bx,
      aw * bw - ax * bx - ay * by - az * bz)"

fun quat_scale :: "real \<Rightarrow> quaternion \<Rightarrow> quaternion" where
  "quat_scale s (x, y, z, w) = (s * x, s * y, s * z, s * w)"

definition normalized :: "quaternion \<Rightarrow> quaternion" where
  "normalized q = quat_scale (1 / sqrt (squared_norm q)) q"

fun SO3_rotation :: "quaternion \<Rightarrow> mat3" where
  "SO3_rotation (x, y, z, w) =
     ((1 - 2 * (y * y + z * z), 2 * (x * y - z * w), 2 * (x * z + y * w)),
      (2 * (x * y + z * w), 1 - 2 * (x * x + z * z), 2 * (y * z - x * w)),
      (2 * (x * z - y * w), 2 * (y * z + x * w), 1 - 2 * (x * x + y * y)))"

fun SO3_inverse :: "quaternion \<Rightarrow> quaternion" where
  "SO3_inverse (x, y, z, w) = (- x, - y, - z, w)"

definition SO3_compose :: "quaternion \<Rightarrow> quaternion \<Rightarrow> quaternion" where
  "SO3_compose q r = normalized (quat_mul q r)"

definition SO3_setIdentity :: quaternion where
  "SO3_setIdentity = (0, 0, 0, 1)"

text \<open>
  The rotation matrix with the 1 on its diagonal written as the squared norm: equal to
  \<^verbatim>\<open>rotation\<close> on unit quaternions, and used in the proofs only.
\<close>

fun homogeneous_rotation :: "quaternion \<Rightarrow> mat3" where
  "homogeneous_rotation (x, y, z, w) =
     ((w * w + x * x - y * y - z * z, 2 * (x * y - z * w), 2 * (x * z + y * w)),
      (2 * (x * y + z * w), w * w - x * x + y * y - z * z, 2 * (y * z - x * w)),
      (2 * (x * z - y * w), 2 * (y * z + x * w), w * w - x * x - y * y + z * z))"

section \<open>The transform group: \<^verbatim>\<open>SE3Base\<close>\<close>

text \<open>
  The coefficients of an SE(3) element: 3 scalars of translation, then the 4 of the
  quaternion that \<^verbatim>\<open>asSO3()\<close> maps.

  Modelled from the spec: the constructor \<^verbatim>\<open>Manifold(translation, quaternion)\<close> is
  declared outside the sources; the spec has an element constructed from a translation
  and a rotation.
\<close>

record SE3 =
  head3 :: vec3
  tail4 :: quaternion

definition Manifold :: "vec3 \<Rightarrow> quaternion \<Rightarrow> SE3" where
  "Manifold t q = \<lparr>head3 = t, tail4 = q\<rparr>"

text \<open>\<^verbatim>\<open>asSO3()\<close>, \<^verbatim>\<open>x()\<close>, \<^verbatim>\<open>y()\<close>, \<^verbatim>\<open>z()\<close>, \<^verbatim>\<open>rotation()\<close>, \<^verbatim>\<open>translation()\<close>.\<close>

definition SE3_asSO3 :: "SE3 \<Rightarrow> quaternion" where
  "SE3_asSO3 m = tail4 m"

definition SE3_x :: "SE3 \<Rightarrow> real" where
  "SE3_x m = fst (head3 m)"

definition SE3_y :: "SE3 \<Rightarrow> real" where
  "SE3_y m = fst (snd (head3 m))"

definition SE3_z :: "SE3 \<Rightarrow> real" where
  "SE3_z m = snd (snd (head3 m))"

definition SE3_rotation :: "SE3 \<Rightarrow> mat3" where
  "SE3_rotation m = SO3_rotation (SE3_asSO3 m)"

definition SE3_translation :: "SE3 \<Rightarrow> vec3" where
  "SE3_translation m = head3 m"

text \<open>
  \<^verbatim>\<open>transform()\<close>: the identity matrix, its top left corner overwritten with the
  rotation and the first three entries of its last column with \<^verbatim>\<open>x()\<close>, \<^verbatim>\<open>y()\<close>,
  \<^verbatim>\<open>z()\<close>.
\<close>

definition SE3_transform :: "SE3 \<Rightarrow> Transformation" where
  "SE3_transform m =
     (case SE3_rotation m of
        ((r00, r01, r02), (r10, r11, r12), (r20, r21, r22)) \<Rightarrow>
          ((r00, r01, r02, SE3_x m), (r10, r11, r12, SE3_y m), (r20, r21, r22, SE3_z m), (0, 0, 0, 1)))"

text \<open>\<^verbatim>\<open>setIdentity()\<close>: all coefficients zero, then the rotation set to the identity.\<close>

definition SE3_setIdentity :: "SE3 \<Rightarrow> SE3" where
  "SE3_setIdentity m = m\<lparr>head3 := (0, 0, 0), tail4 := SO3_setIdentity\<rparr>"

text \<open>
  \<^verbatim>\<open>adj()\<close>: the matrix \<^verbatim>\<open>T\<close> filled row by row, \<^verbatim>\<open>Adj\<close> zero at first, then its
  corners assigned in the order of the code.
\<close>

definition SE3_adj :: "SE3 \<Rightarrow> Jacobian" where
  "SE3_adj m =
     (let T = ((0, - SE3_z m, SE3_y m), (SE3_z m, 0, - SE3_x m), (- SE3_y m, SE3_x m, 0));
          Adj = Jacobian_Zero;
          Adj = Adj\<lparr>topLeftCorner := SE3_rotation m\<rparr>;
          Adj = Adj\<lparr>bottomRightCorner := topLeftCorner Adj\<rparr>;
          Adj = Adj\<lparr>bottomLeftCorner := mat_mul T (topLeftCorner Adj)\<rparr>
      in Adj)"

text \<open>
  An optional Jacobian argument is a flag, whether the caller passed one, and an
  optional result: the matrix written through it.
  \<^verbatim>\<open>inverse(J_minv_m)\<close>:
\<close>

definition SE3_inverse :: "SE3 \<Rightarrow> bool \<Rightarrow> SE3 \<times> Jacobian option" where
  "SE3_inverse m J_minv_m =
     (Manifold (mat_vec (mat_neg (mat_transpose (SE3_rotation m))) (SE3_translation m))
               (SO3_inverse (SE3_asSO3 m)),
      if J_minv_m then Some (Jacobian_neg (SE3_adj m)) else None)"

text \<open>
  \<^verbatim>\<open>compose(m, J_mc_ma, J_mc_mb)\<close>. The inverse of the \<open>6 \<times> 6\<close> matrix
  \<^verbatim>\<open>m.adj()\<close> is computed by the external library: \<^verbatim>\<open>matrix_inverse\<close> stands for it.
\<close>

definition SE3_compose ::
  "(Jacobian \<Rightarrow> Jacobian) \<Rightarrow> SE3 \<Rightarrow> SE3 \<Rightarrow> bool \<Rightarrow> bool \<Rightarrow> SE3 \<times> Jacobian option \<times> Jacobian option" where
  "SE3_compose matrix_inverse self m J_mc_ma J_mc_mb =
     (Manifold (vec_add (mat_vec (SE3_rotation self) (SE3_translation m)) (SE3_translation self))
               (SO3_compose (SE3_asSO3 self) (SE3_asSO3 m)),
      if J_mc_ma then Some (matrix_inverse (SE3_adj m)) else None,
      if J_mc_mb then Some Jacobian_Identity else None)"

text \<open>
  \<^verbatim>\<open>act(v, J_vout_m, J_vout_v)\<close> is not translated. Its two Jacobian arguments have the
  type \<^verbatim>\<open>OptJacobianRef\<close> of the arguments above, a slot for a \<open>6 \<times> 6\<close> matrix, and
  its body assigns \<^verbatim>\<open>rotation()\<close>, a \<open>3 \<times> 3\<close> matrix, to \<^verbatim>\<open>*J_vout_v\<close>; it returns
  \<^verbatim>\<open>transform() * v\<close>, the product of a \<open>4 \<times> 4\<close> matrix with the vector, where the spec
  has a 3-vector. Under the types of this section neither the assignment nor the product
  has a value, so no function of this theory stands for \<^verbatim>\<open>act\<close>.
\<close>

section \<open>Loops and conversions\<close>

lemma for_each_map:
  "(\<And>x. x \<in> set xs \<Longrightarrow> body x = Inr (g x)) \<Longrightarrow> for_each body xs = Inr (map g xs)"
  by (induction xs) simp_all

lemma for_each_subscript:
  "(\<And>i. i \<in> set is \<Longrightarrow> i < length v) \<Longrightarrow> for_each (subscript v) is = Inr (map ((!) v) is)"
  by (rule for_each_map) (simp add: subscript_def)

lemma unat_degree_minus_1:
  "2 \<le> unat (degree :: uint) \<Longrightarrow> unat (degree - 1) = unat degree - 1"
  by (rule unat_minus_one) auto

lemma to_size_t_nat: "n < 2 ^ 64 \<Longrightarrow> to_size_t (int n) = n"
  by (simp add: to_size_t_def)

lemma to_int_nat: "n < 2 ^ 31 \<Longrightarrow> to_int (int n) = int n"
  by (simp add: to_int_def)

lemma to_unsigned_nat: "n < 2 ^ 32 \<Longrightarrow> to_unsigned (int n) = n"
  by (simp add: to_unsigned_def)

section \<open>The number of segments\<close>

lemma floor_quotient_plus_1:
  "\<lfloor>real a / real b + 1\<rfloor> = int (a div b + 1)"
proof -
  have "\<lfloor>real a / real b + 1\<rfloor> = \<lfloor>real a / real b\<rfloor> + 1"
    by simp
  then show ?thesis
    by (simp add: floor_divide_of_nat_eq)
qed

lemma segments_fit:
  assumes "2 \<le> d" "d \<le> len"
  shows "((len - d) div (d - 1) + 1) * (d - 1) + (len - d) mod (d - 1) + 1 = (len :: nat)"
proof -
  have "(len - d) div (d - 1) * (d - 1) + (len - d) mod (d - 1) = len - d"
    by (rule div_mult_mod_eq)
  then have "((len - d) div (d - 1) + 1) * (d - 1) + (len - d) mod (d - 1) = len - d + (d - 1)"
    by (simp add: algebra_simps)
  with assms show ?thesis by simp
qed

lemma n_segments_value:
  assumes "2 \<le> unat degree" "unat degree \<le> len" "len < 2 ^ 31"
  shows "n_segments len degree = Inr ((len - unat degree) div (unat degree - 1) + 1)"
proof -
  have num: "to_size_t (int len - int (unat degree)) = len - unat degree"
    using assms to_size_t_nat [of "len - unat degree"] by (simp add: of_nat_diff)
  have "(len - unat degree) div (unat degree - 1) \<le> len"
    by (meson diff_le_self div_le_dividend le_trans)
  with assms have small: "int ((len - unat degree) div (unat degree - 1) + 1) < 2 ^ 32"
    by simp
  have den: "unat (degree - 1) = unat degree - 1"
    using assms by (simp add: unat_degree_minus_1)
  have pos: "unat degree - 1 \<noteq> 0"
    using assms by simp
  have "n_segments len degree =
    (if int ((len - unat degree) div (unat degree - 1) + 1) < 2 ^ 32
     then Inr (nat (int ((len - unat degree) div (unat degree - 1) + 1)))
     else Inl Undefined_Behaviour)"
    unfolding n_segments_def Let_def num den floor_quotient_plus_1 using pos by simp
  also have "\<dots> = Inr ((len - unat degree) div (unat degree - 1) + 1)"
    using small by (simp only: if_True nat_int)
  finally show ?thesis .
qed

lemma spec_n_segments_value:
  assumes "2 \<le> d" "d \<le> len"
  shows "spec_n_segments len d = int ((len - d) div (d - 1) + 1)"
proof -
  have "real len - real d = real (len - d)" "real d - 1 = real (d - 1)"
    using assms by (simp_all add: of_nat_diff)
  then show ?thesis
    unfolding spec_n_segments_def by (simp only: floor_quotient_plus_1)
qed

lemma spec_n_segments_pos:
  "2 \<le> d \<Longrightarrow> d \<le> len \<Longrightarrow> 1 \<le> spec_n_segments len d"
  by (simp add: spec_n_segments_value)

section \<open>The control points of the segments\<close>

lemma map_nth_consecutive:
  "s + d \<le> length xs \<Longrightarrow> map (\<lambda>n. xs ! (s + n)) [0..<d] = take d (drop s xs)"
  by (rule nth_equalityI) simp_all

lemma map_nth_drop: "map ((!) xs) [i..<length xs] = drop i xs"
  by (rule nth_equalityI) simp_all

lemma map_nth_take: "c \<le> length xs \<Longrightarrow> map ((!) xs) [0..<c] = take c xs"
  by (rule nth_equalityI) simp_all

lemma full_segments_value:
  assumes "2 \<le> unat degree" "nseg * (unat degree - 1) < length trajectory" "length trajectory < 2 ^ 31"
  shows "full_segments trajectory degree nseg =
         Inr (map (spec_window trajectory (unat degree)) [0..<nseg])"
proof -
  let ?d = "unat degree"
  have inner: "for_each (\<lambda>n. subscript trajectory ((t * unat (degree - 1) + n) mod 2 ^ 32)) [0..<?d]
      = Inr (spec_window trajectory ?d t)" if "t < nseg" for t
  proof -
    have "Suc t * (?d - 1) \<le> nseg * (?d - 1)"
      using that by (intro mult_le_mono1) simp
    then have top: "t * (?d - 1) + ?d \<le> length trajectory"
      using assms by simp
    have body: "subscript trajectory ((t * unat (degree - 1) + n) mod 2 ^ 32)
        = Inr (trajectory ! (t * (?d - 1) + n))" if "n \<in> set [0..<?d]" for n
    proof -
      have "t * (?d - 1) + n < length trajectory"
        using that top by simp
      moreover from this have "(t * (?d - 1) + n) mod 2 ^ 32 = t * (?d - 1) + n"
        using assms(3) by simp
      ultimately show ?thesis
        using assms(1) by (simp only: unat_degree_minus_1 subscript_def if_True)
    qed
    have "for_each (\<lambda>n. subscript trajectory ((t * unat (degree - 1) + n) mod 2 ^ 32)) [0..<?d]
        = Inr (map (\<lambda>n. trajectory ! (t * (?d - 1) + n)) [0..<?d])"
      by (rule for_each_map) (rule body)
    then show ?thesis
      using top by (simp add: spec_window_def map_nth_consecutive)
  qed
  show ?thesis
    unfolding full_segments_def
  proof (rule for_each_map)
    fix t assume "t \<in> set [0..<nseg]"
    then have "t < nseg" by simp
    then show "for_each (\<lambda>n. subscript trajectory ((t * unat (degree - 1) + n) mod 2 ^ 32)) [0..<?d]
      = Inr (spec_window trajectory ?d t)"
      by (rule inner)
  qed
qed

lemma length_spec_window:
  "s * (d - 1) + d \<le> length trajectory \<Longrightarrow> length (spec_window trajectory d s) = d"
  by (simp add: spec_window_def)

lemma nth_spec_window:
  "s * (d - 1) + d \<le> length trajectory \<Longrightarrow> n < d \<Longrightarrow>
   spec_window trajectory d s ! n = trajectory ! (s * (d - 1) + n)"
  by (simp add: spec_window_def)

lemma window_top:
  assumes "2 \<le> d" "d \<le> len" "s < (len - d) div (d - 1) + 1"
  shows "s * (d - 1) + d \<le> (len :: nat)"
proof -
  have "Suc s * (d - 1) \<le> ((len - d) div (d - 1) + 1) * (d - 1)"
    using assms(3) by (intro mult_le_mono1) simp
  also have "\<dots> \<le> len - 1"
    using segments_fit [OF assms(1,2)] by linarith
  finally show ?thesis
    using assms(1) by simp
qed

lemma next_window_start: "(s + 1) * (d - 1) = s * (d - 1) + (d - (1::nat))"
  by (metis Suc_eq_plus1 add.commute mult_Suc)

lemma windows_share_endpoint:
  assumes "2 \<le> d"
  shows "{s * (d - 1)..<s * (d - 1) + d} \<inter> {(s + 1) * (d - 1)..<(s + 1) * (d - 1) + d}
       = {(s + 1) * (d - (1::nat))}"
  unfolding next_window_start
proof (rule set_eqI)
  fix x
  from assms
  show "x \<in> {s * (d - 1)..<s * (d - 1) + d} \<inter> {s * (d - 1) + (d - 1)..<s * (d - 1) + (d - 1) + d}
      \<longleftrightarrow> x \<in> {s * (d - 1) + (d - 1)}"
    unfolding Int_iff atLeastLessThan_iff singleton_iff by linarith
qed

lemma last_pts_idx_value:
  assumes "2 \<le> unat degree" "nseg * (unat degree - 1) < 2 ^ 31"
  shows "last_pts_idx nseg degree = int (nseg * (unat degree - 1))"
proof -
  have "(nseg * (unat degree - 1)) mod 2 ^ 32 = nseg * (unat degree - 1)"
    using assms(2) by simp
  then show ?thesis
    unfolding last_pts_idx_def unat_degree_minus_1 [OF assms(1)]
    using assms(2) by (simp only: to_int_nat)
qed

lemma closing_segment_value:
  assumes d: "2 \<le> unat degree" "unat degree \<le> length trajectory"
    and len: "length trajectory < 2 ^ 31"
    and last: "nseg * (unat degree - 1) < length trajectory"
    and fits: "length trajectory \<le> nseg * (unat degree - 1) + unat degree"
  shows "closing_segment trajectory degree nseg closed_curve =
         Inr (if closed_curve then [spec_wrap_around_segment trajectory (unat degree) nseg] else [])"
proof (cases closed_curve)
  case False
  then show ?thesis by (simp add: closing_segment_def)
next
  case True
  let ?d = "unat degree" and ?len = "length trajectory"
  let ?lpi = "nseg * (?d - 1)"
  have lpi: "last_pts_idx nseg degree = int ?lpi"
  proof (rule last_pts_idx_value)
    show "2 \<le> ?d" by (fact d)
    show "?lpi < 2 ^ 31" using len last by (rule less_trans [rotated])
  qed
  have len': "?len < 2147483648"
    using len by simp
  have "?lpi < 18446744073709551616" "?len - 1 < 18446744073709551616"
    "?len - 1 - ?lpi < 18446744073709551616"
    "?len - 1 - ?lpi < 2147483648" "?d - (?len - ?lpi) < 4294967296"
    using d len' last by linarith+
  then have b1: "?lpi < 2 ^ 64" "?len - 1 < 2 ^ 64" "?len - 1 - ?lpi < 2 ^ 64"
    "?len - 1 - ?lpi < 2 ^ 31" "?d - (?len - ?lpi) < 2 ^ 32"
    by simp_all
  have s1: "to_size_t (int ?lpi) = ?lpi"
    using b1(1) by (rule to_size_t_nat)
  have "int ?len - 1 = int (?len - 1)"
    using d by linarith
  then have s2: "to_size_t (int ?len - 1) = ?len - 1"
    using b1(2) by (simp only: to_size_t_nat)
  have "int ?len - 1 - int ?lpi = int (?len - 1 - ?lpi)"
    using last by linarith
  then have s3: "to_size_t (int ?len - 1 - int ?lpi) = ?len - 1 - ?lpi"
    using b1(3) by (simp only: to_size_t_nat)
  have lo: "to_int (int (?len - 1 - ?lpi)) = int (?len - 1 - ?lpi)"
    using b1(4) by (rule to_int_nat)
  have "int ?d - int (?len - 1 - ?lpi) - 1 = int (?d - (?len - ?lpi))"
    using last fits by linarith
  then have cnt: "to_unsigned (int ?d - int (?len - 1 - ?lpi) - 1) = ?d - (?len - ?lpi)"
    using b1(5) by (simp only: to_unsigned_nat)
  have cond: "?lpi \<le> ?len - 1"
    using last by simp
  have "for_each (subscript trajectory) [?lpi..<?len] = Inr (map ((!) trajectory) [?lpi..<?len])"
    by (rule for_each_subscript) simp
  then have trailing: "for_each (subscript trajectory) [?lpi..<?len] = Inr (drop ?lpi trajectory)"
    by (simp only: map_nth_drop)
  have "?d - (?len - ?lpi) \<le> ?len"
    using d by linarith
  moreover from this have "for_each (subscript trajectory) [0..<?d - (?len - ?lpi)]
      = Inr (map ((!) trajectory) [0..<?d - (?len - ?lpi)])"
    by (intro for_each_subscript) simp
  ultimately have leading: "for_each (subscript trajectory) [0..<?d - (?len - ?lpi)]
      = Inr (take (?d - (?len - ?lpi)) trajectory)"
    by (simp only: map_nth_take)
  have wrap: "spec_wrap_around_segment trajectory ?d nseg
      = drop ?lpi trajectory @ take (?d - (?len - ?lpi)) trajectory"
    by (simp only: spec_wrap_around_segment_def spec_leftover_points_def length_drop)
  show ?thesis
    unfolding closing_segment_def Let_def lpi s1 s2 s3 lo cnt nat_int trailing leading wrap
    using True cond by (simp only: simp_thms if_True sum.case)
qed

lemma length_spec_wrap_around_segment:
  assumes "2 \<le> d" "d \<le> length trajectory"
  shows "length (spec_wrap_around_segment trajectory d ((length trajectory - d) div (d - 1) + 1)) = d"
proof -
  define len where "len = length trajectory"
  define last where "last = ((len - d) div (d - 1) + 1) * (d - 1)"
  have "(len - d) mod (d - 1) < d - 1"
    using assms(1) by (intro mod_less_divisor) simp
  moreover have "last + (len - d) mod (d - 1) + 1 = len"
    unfolding last_def len_def using assms by (rule segments_fit)
  ultimately have "len - last \<le> d" "last < len"
    by linarith+
  moreover have "length (spec_wrap_around_segment trajectory d ((length trajectory - d) div (d - 1) + 1))
      = len - last + min len (d - (len - last))"
    by (simp only: spec_wrap_around_segment_def spec_leftover_points_def length_append length_drop
        length_take len_def last_def)
  ultimately show ?thesis
    using assms(2) unfolding len_def [symmetric] by linarith
qed

lemma segments_control_points_value:
  assumes "2 \<le> unat degree" "unat degree \<le> length trajectory" "length trajectory < 2 ^ 31"
  shows "segments_control_points trajectory degree closed_curve
       = Inr (spec_segments trajectory (unat degree) closed_curve)"
proof -
  let ?d = "unat degree" and ?len = "length trajectory"
  let ?N = "(?len - ?d) div (?d - 1) + 1"
  have "(?len - ?d) mod (?d - 1) < ?d - 1"
    using assms(1) by (intro mod_less_divisor) simp
  with segments_fit [OF assms(1,2)]
  have last: "?N * (?d - 1) < ?len" and fits: "?len \<le> ?N * (?d - 1) + ?d"
    by linarith+
  have n: "n_segments ?len degree = Inr ?N"
    using assms by (rule n_segments_value)
  have f: "full_segments trajectory degree ?N = Inr (map (spec_window trajectory ?d) [0..<?N])"
    using assms(1) last assms(3) by (rule full_segments_value)
  have c: "closing_segment trajectory degree ?N closed_curve
      = Inr (if closed_curve then [spec_wrap_around_segment trajectory ?d ?N] else [])"
    using assms last fits by (rule closing_segment_value)
  have N: "nat (spec_n_segments ?len ?d) = ?N"
    unfolding spec_n_segments_value [OF assms(1,2)] by (rule nat_int)
  show ?thesis
    unfolding segments_control_points_def spec_segments_def Let_def N
    by (simp only: n f c sum.case)
qed

lemma length_spec_segments:
  assumes "2 \<le> d" "d \<le> length trajectory" "segment \<in> set (spec_segments trajectory d closed_curve)"
  shows "length segment = d"
proof -
  define N where "N = (length trajectory - d) div (d - 1) + 1"
  have N: "nat (spec_n_segments (length trajectory) d) = N"
    unfolding spec_n_segments_value [OF assms(1,2)] N_def by (rule nat_int)
  from assms(3) have "segment \<in> spec_window trajectory d ` {0..<N}
      \<or> segment = spec_wrap_around_segment trajectory d N"
    unfolding spec_segments_def Let_def N by (auto split: if_splits)
  then show ?thesis
  proof
    assume "segment \<in> spec_window trajectory d ` {0..<N}"
    then obtain s where "s < N" "segment = spec_window trajectory d s"
      by auto
    then show ?thesis
      using window_top [OF assms(1,2), of s] unfolding N_def by (simp only: length_spec_window)
  next
    assume "segment = spec_wrap_around_segment trajectory d N"
    then show ?thesis
      unfolding N_def using assms(1,2) by (simp only: length_spec_wrap_around_segment)
  qed
qed

lemma spec_segments_degree_2:
  assumes "2 \<le> length trajectory"
  shows "spec_segments trajectory 2 False
       = map (\<lambda>s. [trajectory ! s, trajectory ! (s + 1)]) [0..<length trajectory - 1]"
proof -
  have N: "nat (spec_n_segments (length trajectory) 2) = length trajectory - 1"
    using assms by (simp add: spec_n_segments_value)
  have "spec_window trajectory 2 s = [trajectory ! s, trajectory ! (s + 1)]"
    if "s \<in> set [0..<length trajectory - 1]" for s
  proof -
    from that have "s + 2 \<le> length trajectory"
      by simp
    then have "map (\<lambda>n. trajectory ! (s + n)) [0..<2] = take 2 (drop s trajectory)"
      by (rule map_nth_consecutive)
    moreover have "[0..<2] = [0, Suc 0]"
      by (simp add: upt_rec)
    ultimately show ?thesis
      by (simp add: spec_window_def)
  qed
  then show ?thesis
    unfolding spec_segments_def Let_def N by simp
qed

section \<open>Rounds and samples\<close>

lemma length_spec_round [simp]:
  "length (spec_round f Qs) = length Qs - 1"
  by (induction f Qs rule: spec_round.induct) simp_all

lemma nth_spec_round:
  "q + 1 < length Qs \<Longrightarrow> spec_round f Qs ! q = f (Qs ! q) (Qs ! (q + 1))"
proof (induction f Qs arbitrary: q rule: spec_round.induct)
  case (1 f Q Q' Qs)
  then show ?case by (cases q) simp_all
qed simp_all

lemma spec_round_nth:
  "spec_round f Qs = map (\<lambda>q. f (Qs ! q) (Qs ! (q + 1))) [0..<length Qs - 1]"
  by (rule nth_equalityI) (simp_all add: nth_spec_round)

lemma blend_round_value:
  assumes "Qs \<noteq> []" "length Qs < 2 ^ 31"
  shows "blend_round f Qs = Inr (spec_round f Qs)"
proof -
  have "int (length Qs) - 1 = int (length Qs - 1)"
    using assms by (cases Qs) simp_all
  moreover have "length Qs - 1 < 2 ^ 64"
    using assms(2) by (simp add: less_imp_diff_less)
  ultimately have bound: "to_size_t (int (length Qs) - 1) = length Qs - 1"
    by (simp only: to_size_t_nat)
  have body: "(case subscript Qs q of
               Inl e \<Rightarrow> Inl e
             | Inr Q \<Rightarrow> (case subscript Qs (q + 1) of Inl e \<Rightarrow> Inl e | Inr Q' \<Rightarrow> Inr (f Q Q')))
        = Inr (f (Qs ! q) (Qs ! (q + 1)))" if "q \<in> set [0..<length Qs - 1]" for q
    using that by (simp add: subscript_def)
  show ?thesis
    unfolding blend_round_def bound spec_round_nth
    by (rule for_each_map) (rule body)
qed

lemma rounds_value:
  "i < length Qs \<Longrightarrow> length Qs < 2 ^ 31 \<Longrightarrow>
   rounds i (blend_round f) Qs = Inr ((spec_round f ^^ i) Qs)"
proof (induction i arbitrary: Qs)
  case 0
  show ?case by simp
next
  case (Suc i)
  then have "blend_round f Qs = Inr (spec_round f Qs)"
    by (intro blend_round_value) auto
  moreover have "rounds i (blend_round f) (spec_round f Qs)
      = Inr ((spec_round f ^^ i) (spec_round f Qs))"
    using Suc.prems by (intro Suc.IH) simp_all
  ultimately show ?case
    by (simp add: funpow_swap1)
qed

lemma length_rounds [simp]:
  "length ((spec_round f ^^ i) Qs) = length Qs - i"
  by (induction i) simp_all

lemma spec_point_single:
  assumes "2 \<le> d" "length segment = d"
  shows "(spec_round f ^^ (d - 1)) segment = [spec_point f (d - 1) segment]"
proof -
  define Qs where "Qs = (spec_round f ^^ (d - 1)) segment"
  have "length Qs = length segment - (d - 1)"
    unfolding Qs_def by (rule length_rounds)
  then have "length Qs = Suc 0"
    using assms by linarith
  then obtain P where "Qs = [P]"
    by (auto simp: length_Suc_conv)
  then show ?thesis
    unfolding spec_point_def Qs_def [symmetric] by simp
qed

lemma spec_point_pair: "spec_point f 1 [Q, Q'] = f Q Q'"
  by (simp add: spec_point_def)

lemma sample_value:
  assumes "2 \<le> unat degree" "length segment = unat degree" "length segment < 2 ^ 31"
  shows "sample f degree segment = Inr (spec_point f (unat degree - 1) segment)"
proof -
  have r: "rounds (unat (degree - 1)) (blend_round f) segment
      = Inr ((spec_round f ^^ (unat degree - 1)) segment)"
    unfolding unat_degree_minus_1 [OF assms(1)] using assms by (intro rounds_value) simp_all
  define Qs where "Qs = (spec_round f ^^ (unat degree - 1)) segment"
  have "length Qs = length segment - (unat degree - 1)"
    unfolding Qs_def by (rule length_rounds)
  then have "length Qs = Suc 0"
    using assms by linarith
  then obtain P where "Qs = [P]"
    by (auto simp: length_Suc_conv)
  then show ?thesis
    unfolding sample_def r spec_point_def Qs_def [symmetric] by (simp add: subscript_def)
qed

lemma segment_k_interp_value:
  assumes "unat k_interp * unat degree < 2 ^ 31" "2 \<le> unat degree"
  shows "segment_k_interp degree k_interp
       = int (if degree = 2 then unat k_interp else unat k_interp * unat degree)"
proof -
  have "unat k_interp * unat degree < 2 ^ LENGTH(32)"
    using assms(1) by simp
  then have prod: "unat (k_interp * degree) = unat k_interp * unat degree"
    by (simp only: unat_mult_lem)
  have "unat k_interp * 2 \<le> unat k_interp * unat degree"
    using assms(2) by (intro mult_le_mono2)
  moreover have "unat k_interp * unat degree < 2147483648"
    using assms(1) by simp
  ultimately have "unat k_interp < 2147483648"
    by linarith
  then have k: "unat k_interp < 2 ^ 31"
    by simp
  show ?thesis
  proof (cases "degree = 2")
    case True
    then have "segment_k_interp degree k_interp = to_int (int (unat k_interp))"
      unfolding segment_k_interp_def by simp
    also have "\<dots> = int (unat k_interp)"
      using k by (rule to_int_nat)
    finally show ?thesis
      using True by simp
  next
    case False
    then have "segment_k_interp degree k_interp = to_int (int (unat k_interp * unat degree))"
      unfolding segment_k_interp_def by (simp only: if_False prod)
    also have "\<dots> = int (unat k_interp * unat degree)"
      using assms(1) by (rule to_int_nat)
    finally show ?thesis
      using False by simp
  qed
qed

lemma fit_segment_value:
  assumes "2 \<le> unat degree" "length segment = unat degree" "length segment < 2 ^ 31"
    "sk \<noteq> 2 ^ 31 - 1"
  shows "fit_segment rplus rminus scale degree sk segment
       = Inr (spec_samples (blend rplus rminus scale) (unat degree - 1) sk segment)"
  unfolding fit_segment_def spec_samples_def using assms(4)
  by (simp only: if_False) (rule for_each_map, rule sample_value [OF assms(1-3)])

lemma length_spec_samples [simp]:
  "length (spec_samples interpolate n sk segment) = nat sk"
  by (simp add: spec_samples_def)

lemma sample_parameter_range:
  assumes "i \<in> set [1..sk]"
  shows "0 < real_of_int i / real_of_int sk \<and> real_of_int i / real_of_int sk \<le> 1"
proof -
  from assms have "1 \<le> i" "i \<le> sk"
    by simp_all
  then have "0 < real_of_int i" "real_of_int i \<le> real_of_int sk" "0 < real_of_int sk"
    by simp_all
  then show ?thesis
    by simp
qed

lemma decasteljau_value:
  assumes "2 < length trajectory" "2 \<le> unat degree" "unat degree \<le> length trajectory"
    "0 < k_interp" "length trajectory < 2 ^ 31" "unat k_interp * unat degree < 2 ^ 31 - 1"
  shows "decasteljau rplus rminus scale trajectory degree k_interp closed_curve
       = Inr (concat (map (spec_samples (blend rplus rminus scale) (unat degree - 1)
                             (segment_k_interp degree k_interp))
                          (spec_segments trajectory (unat degree) closed_curve)))"
proof -
  let ?sk = "segment_k_interp degree k_interp"
  have small: "unat k_interp * unat degree < 2 ^ 31"
    using assms(6) by simp
  define K where "K = (if degree = 2 then unat k_interp else unat k_interp * unat degree)"
  have "K \<le> unat k_interp * unat degree"
    unfolding K_def using assms(2) by simp
  moreover have "unat k_interp * unat degree < 2147483647"
    using assms(6) by simp
  ultimately have "int K \<noteq> 2147483647"
    by linarith
  then have "?sk \<noteq> 2 ^ 31 - 1"
    unfolding segment_k_interp_value [OF small assms(2)] K_def by simp
  then have fit: "fit_segment rplus rminus scale degree ?sk segment
      = Inr (spec_samples (blend rplus rminus scale) (unat degree - 1) ?sk segment)"
    if "segment \<in> set (spec_segments trajectory (unat degree) closed_curve)" for segment
    using length_spec_segments [OF assms(2,3) that] assms(2,3,5)
    by (intro fit_segment_value) simp_all
  have curves: "for_each (fit_segment rplus rminus scale degree ?sk)
        (spec_segments trajectory (unat degree) closed_curve)
      = Inr (map (spec_samples (blend rplus rminus scale) (unat degree - 1) ?sk)
               (spec_segments trajectory (unat degree) closed_curve))"
    by (rule for_each_map) (rule fit)
  show ?thesis
    unfolding decasteljau_def MANIF_CHECK_def
      segments_control_points_value [OF assms(2,3,5)]
    using assms(1,3,4) by (simp only: if_True sum.case curves)
qed

section \<open>Degrees below 2\<close>

lemma n_segments_degree_0:
  assumes "len < 2 ^ 32 - 1"
  shows "n_segments len 0 = Inr 1"
proof -
  have den: "unat (0 - 1 :: uint) = 4294967295"
    by (simp add: unsigned_minus_1_eq_mask mask_eq_exp_minus_1)
  have num: "to_size_t (int len - int (unat (0 :: uint))) = len"
    using assms by (simp add: to_size_t_def)
  have "real len / 4294967295 < 1"
    using assms by simp
  then have "\<lfloor>real len / 4294967295 + 1\<rfloor> = 1"
    by (intro floor_unique) simp_all
  then show ?thesis
    unfolding n_segments_def Let_def den num by simp
qed

lemma full_segments_degree_0: "full_segments trajectory 0 1 = Inr [[]]"
  by (simp add: full_segments_def)

lemma closing_segment_degree_0:
  assumes "0 < length trajectory" "length trajectory < 2 ^ 32 - 1"
  shows "closing_segment trajectory 0 1 closed_curve = Inr []"
proof -
  have "unat (0 - 1 :: uint) = 4294967295"
    by (simp add: unsigned_minus_1_eq_mask mask_eq_exp_minus_1)
  then have "last_pts_idx 1 0 = to_int 4294967295"
    unfolding last_pts_idx_def by simp
  then have lpi: "last_pts_idx 1 0 = - 1"
    by (simp add: to_int_def)
  have huge: "to_size_t (- 1) = 18446744073709551615"
    by (simp add: to_size_t_def)
  have len: "length trajectory < 4294967295"
    using assms(2) by simp
  then have "length trajectory - 1 < 18446744073709551616"
    by linarith
  then have "length trajectory - 1 < 2 ^ 64"
    by simp
  then have "to_size_t (int (length trajectory - 1)) = length trajectory - 1"
    by (rule to_size_t_nat)
  moreover have "int (length trajectory) - 1 = int (length trajectory - 1)"
    using assms(1) by linarith
  ultimately have small: "to_size_t (int (length trajectory) - 1) = length trajectory - 1"
    by (simp only:)
  have "\<not> (18446744073709551615 :: nat) \<le> length trajectory - 1"
    using len by linarith
  then show ?thesis
    unfolding closing_segment_def Let_def lpi huge small by (simp only: simp_thms if_False)
qed

lemma segments_control_points_degree_0:
  assumes "0 < length trajectory" "length trajectory < 2 ^ 32 - 1"
  shows "segments_control_points trajectory 0 closed_curve = Inr [[]]"
  unfolding segments_control_points_def
  by (simp only: n_segments_degree_0 [OF assms(2)] full_segments_degree_0
      closing_segment_degree_0 [OF assms] sum.case append_Nil2)

lemma decasteljau_degree_0:
  assumes "2 < length trajectory" "length trajectory < 2 ^ 32 - 1" "0 < k_interp"
  shows "decasteljau rplus rminus scale trajectory 0 k_interp closed_curve = Inr []"
proof -
  have "0 < length trajectory"
    using assms(1) by linarith
  then have "segments_control_points trajectory 0 closed_curve = Inr [[]]"
    using assms(2) by (rule segments_control_points_degree_0)
  moreover have "segment_k_interp 0 k_interp = 0"
    by (simp add: segment_k_interp_def to_int_def)
  ultimately show ?thesis
    unfolding decasteljau_def MANIF_CHECK_def using assms(1,3)
    by (simp add: fit_segment_def)
qed

lemma decasteljau_degree_1:
  assumes "2 < length trajectory" "0 < k_interp"
  shows "decasteljau rplus rminus scale trajectory 1 k_interp closed_curve = Inl Undefined_Behaviour"
  unfolding decasteljau_def MANIF_CHECK_def segments_control_points_def n_segments_def
  using assms by simp

section \<open>Precondition checks\<close>

text \<open>
  C5. \<^verbatim>\<open>decasteljau\<close> ends with a failed check, and with nothing else, whenever the
  trajectory has at most 2 elements, or \<^verbatim>\<open>degree\<close> exceeds its length, or \<^verbatim>\<open>k_interp\<close>
  is 0. The checks come first: no operation that could itself go wrong is run before
  them, and no curve is returned. A trajectory of 2 elements fails for every
  \<^verbatim>\<open>degree\<close> and \<^verbatim>\<open>k_interp\<close>.
\<close>

theorem decasteljau_precondition_failure:
  "(length trajectory \<le> 2 \<or> unat degree > length trajectory \<or> k_interp = 0 \<longrightarrow>
      decasteljau rplus rminus scale trajectory degree k_interp closed_curve = Inl Check_Failed) \<and>
   decasteljau rplus rminus scale [p0, p1] degree k_interp closed_curve = Inl Check_Failed"
  by (auto simp: decasteljau_def MANIF_CHECK_def word_greater_zero_iff)

theorem decasteljau_precondition_failure_witness:
  "(length [0, 1, 2, 3 :: real] \<le> 2 \<or> unat (3 :: uint) > length [0, 1, 2, 3 :: real] \<or> (0 :: uint) = 0) \<and>
   decasteljau (+) (-) (*) [0, 1, 2, 3 :: real] 3 0 False = Inl Check_Failed \<and>
   decasteljau (+) (-) (*) [0, 1 :: real] 2 5 True = Inl Check_Failed"
  using decasteljau_precondition_failure [of "[0, 1, 2, 3 :: real]" 3 0 "(+)" "(-)" "(*)" False 0 1]
    decasteljau_precondition_failure [of "[0, 1 :: real]" 2 5 "(+)" "(-)" "(*)" True 0 1]
  by simp

section \<open>The partition into windows\<close>

text \<open>
  C2, for \<^verbatim>\<open>degree\<close> at least 2. For a trajectory of more than 2 and fewer than
  \<open>2\<^sup>3\<^sup>1\<close> points and \<open>2 \<le> degree \<le> len\<close>, the number of segments that
  \<^verbatim>\<open>decasteljau\<close> computes is \<open>\<lfloor>(len - degree)/(degree - 1) + 1\<rfloor>\<close>, which is at
  least 1; the segments of an open curve are the windows \<open>0, 1, ...\<close> in this order;
  window \<open>s\<close> holds the \<open>degree\<close> control points at the indices
  \<open>s * (degree - 1) + n\<close>, \<open>n < degree\<close>, all inside the trajectory; and the index
  ranges of window \<open>s\<close> and of the next one meet in exactly one index, the first of
  the next window.
\<close>

theorem decasteljau_windows:
  assumes "2 < length trajectory" "2 \<le> unat degree" "unat degree \<le> length trajectory"
    "length trajectory < 2 ^ 31"
  shows "n_segments (length trajectory) degree
           = Inr (nat (spec_n_segments (length trajectory) (unat degree))) \<and>
         1 \<le> spec_n_segments (length trajectory) (unat degree) \<and>
         segments_control_points trajectory degree False
           = Inr (map (spec_window trajectory (unat degree))
                    [0..<nat (spec_n_segments (length trajectory) (unat degree))]) \<and>
         (\<forall>s<nat (spec_n_segments (length trajectory) (unat degree)).
           length (spec_window trajectory (unat degree) s) = unat degree \<and>
           (\<forall>n<unat degree.
              s * (unat degree - 1) + n < length trajectory \<and>
              spec_window trajectory (unat degree) s ! n = trajectory ! (s * (unat degree - 1) + n)) \<and>
           {s * (unat degree - 1)..<s * (unat degree - 1) + unat degree}
             \<inter> {(s + 1) * (unat degree - 1)..<(s + 1) * (unat degree - 1) + unat degree}
             = {(s + 1) * (unat degree - 1)})"
proof -
  let ?d = "unat degree" and ?len = "length trajectory"
  have N: "nat (spec_n_segments ?len ?d) = (?len - ?d) div (?d - 1) + 1"
    unfolding spec_n_segments_value [OF assms(2,3)] by (rule nat_int)
  have count: "n_segments ?len degree = Inr (nat (spec_n_segments ?len ?d))"
    unfolding N using assms(2,3,4) by (rule n_segments_value)
  have pos: "1 \<le> spec_n_segments ?len ?d"
    using assms(2,3) by (rule spec_n_segments_pos)
  have segs: "segments_control_points trajectory degree False
      = Inr (map (spec_window trajectory ?d) [0..<nat (spec_n_segments ?len ?d)])"
    unfolding segments_control_points_value [OF assms(2,3,4)] spec_segments_def Let_def
    by simp
  have windows: "\<forall>s<nat (spec_n_segments ?len ?d).
           length (spec_window trajectory ?d s) = ?d \<and>
           (\<forall>n<?d. s * (?d - 1) + n < ?len \<and>
              spec_window trajectory ?d s ! n = trajectory ! (s * (?d - 1) + n)) \<and>
           {s * (?d - 1)..<s * (?d - 1) + ?d} \<inter> {(s + 1) * (?d - 1)..<(s + 1) * (?d - 1) + ?d}
             = {(s + 1) * (?d - 1)}"
  proof (intro allI impI conjI)
    fix s assume "s < nat (spec_n_segments ?len ?d)"
    then have top: "s * (?d - 1) + ?d \<le> ?len"
      unfolding N using assms(2,3) by (intro window_top)
    then show "length (spec_window trajectory ?d s) = ?d"
      by (rule length_spec_window)
    show "{s * (?d - 1)..<s * (?d - 1) + ?d} \<inter> {(s + 1) * (?d - 1)..<(s + 1) * (?d - 1) + ?d}
             = {(s + 1) * (?d - 1)}"
      using assms(2) by (rule windows_share_endpoint)
    fix n assume "n < ?d"
    with top show "s * (?d - 1) + n < ?len"
      by linarith
    from top \<open>n < ?d\<close> show "spec_window trajectory ?d s ! n = trajectory ! (s * (?d - 1) + n)"
      by (rule nth_spec_window)
  qed
  from count pos segs windows show ?thesis
    by (intro conjI)
qed

text \<open>The theorem at a trajectory of 5 points with \<^verbatim>\<open>degree = 3\<close>: two windows.\<close>

lemma spec_5_3: "spec_n_segments 5 3 = 2"
  by (simp add: spec_n_segments_def)

theorem decasteljau_windows_witness:
  "2 < length [10, 11, 12, 13, 14 :: real] \<and> 2 \<le> unat (3 :: uint) \<and>
   unat (3 :: uint) \<le> length [10, 11, 12, 13, 14 :: real] \<and>
   length [10, 11, 12, 13, 14 :: real] < 2 ^ 31 \<and>
   n_segments 5 3 = Inr 2 \<and>
   segments_control_points [10, 11, 12, 13, 14 :: real] 3 False = Inr [[10, 11, 12], [12, 13, 14]]"
proof -
  have len: "length [10, 11, 12, 13, 14 :: real] = 5" and d: "unat (3 :: uint) = 3"
    by simp_all
  have pre: "2 < length [10, 11, 12, 13, 14 :: real]" "2 \<le> unat (3 :: uint)"
    "unat (3 :: uint) \<le> length [10, 11, 12, 13, 14 :: real]"
    "length [10, 11, 12, 13, 14 :: real] < 2 ^ 31"
    by simp_all
  have "[0..<nat 2] = [0, Suc 0]"
    by (simp add: upt_rec)
  with decasteljau_windows [OF pre, unfolded len d spec_5_3]
  have "n_segments 5 3 = Inr 2"
    and "segments_control_points [10, 11, 12, 13, 14 :: real] 3 False
      = Inr [[10, 11, 12], [12, 13, 14]]"
    by (simp_all add: spec_window_def)
  with pre show ?thesis
    by (intro conjI)
qed

text \<open>
  With \<^verbatim>\<open>degree = 1\<close> the three checks pass, the quotient has the denominator 0 and
  no segment is formed: the claim does not hold for every input that passes the checks.
\<close>

theorem decasteljau_windows_counterexample:
  "2 < length [10, 11, 12 :: real] \<and> unat (1 :: uint) \<le> length [10, 11, 12 :: real] \<and>
   (0 :: uint) < 1 \<and>
   segments_control_points [10, 11, 12 :: real] 1 False = Inl Undefined_Behaviour \<and>
   decasteljau (+) (-) (*) [10, 11, 12 :: real] 1 1 False = Inl Undefined_Behaviour"
  by (simp add: decasteljau_degree_1 segments_control_points_def n_segments_def)

section \<open>The closing segment\<close>

lemma spec_wrap_around_segment_parts:
  assumes "2 \<le> d" "d \<le> length trajectory"
  defines "N \<equiv> nat (spec_n_segments (length trajectory) d)"
  shows "spec_wrap_around_segment trajectory d N
           = trajectory ! (N * (d - 1)) # spec_unconsumed_points trajectory d N
             @ take (d - 1 - length (spec_unconsumed_points trajectory d N)) trajectory"
    and "length (spec_unconsumed_points trajectory d N) < d - 1"
    and "trajectory ! (N * (d - 1)) = last (spec_window trajectory d (N - 1))"
proof -
  define len where "len = length trajectory"
  define L where "L = N * (d - 1)"
  have N: "N = (len - d) div (d - 1) + 1"
    unfolding N_def spec_n_segments_value [OF assms(1,2)] len_def by (rule nat_int)
  have "(len - d) mod (d - 1) < d - 1"
    using assms(1) by (intro mod_less_divisor) simp
  moreover have fit: "L + (len - d) mod (d - 1) + 1 = len"
    unfolding L_def N len_def using assms(1,2) by (rule segments_fit)
  ultimately have L: "L < len" and rest: "len - (L + 1) < d - 1"
    by linarith+
  have "drop L trajectory = trajectory ! L # drop (L + 1) trajectory"
    using L unfolding len_def by (simp add: Cons_nth_drop_Suc)
  moreover have "d - length (drop L trajectory) = d - 1 - length (drop (L + 1) trajectory)"
    using L unfolding len_def by simp
  ultimately show "spec_wrap_around_segment trajectory d N
           = trajectory ! (N * (d - 1)) # spec_unconsumed_points trajectory d N
             @ take (d - 1 - length (spec_unconsumed_points trajectory d N)) trajectory"
    unfolding spec_wrap_around_segment_def spec_leftover_points_def spec_unconsumed_points_def
      L_def [symmetric] by simp
  show "length (spec_unconsumed_points trajectory d N) < d - 1"
    unfolding spec_unconsumed_points_def L_def [symmetric] using rest
    by (simp add: len_def)
  have top: "(N - 1) * (d - 1) + d \<le> length trajectory"
    using assms(1,2) unfolding N len_def by (intro window_top) simp_all
  then have w: "length (spec_window trajectory d (N - 1)) = d"
    by (rule length_spec_window)
  from w assms(1) have "spec_window trajectory d (N - 1) \<noteq> []"
    by auto
  then have "last (spec_window trajectory d (N - 1))
      = spec_window trajectory d (N - 1) ! (length (spec_window trajectory d (N - 1)) - 1)"
    by (rule last_conv_nth)
  then have "last (spec_window trajectory d (N - 1)) = spec_window trajectory d (N - 1) ! (d - 1)"
    unfolding w .
  also have "\<dots> = trajectory ! ((N - 1) * (d - 1) + (d - 1))"
    using top assms(1) by (intro nth_spec_window) simp_all
  also have "(N - 1) * (d - 1) + (d - 1) = N * (d - 1)"
    unfolding N by (simp add: algebra_simps)
  finally show "trajectory ! (N * (d - 1)) = last (spec_window trajectory d (N - 1))"
    by simp
qed

text \<open>
  C3, for \<^verbatim>\<open>degree\<close> at least 2, in one direction. For a trajectory of more than 2 and
  fewer than \<open>2\<^sup>3\<^sup>1\<close> points and \<open>2 \<le> degree \<le> len\<close>: if \<^verbatim>\<open>closed_curve\<close> is set
  and points remain unconsumed after the last full window, the segments are the full
  windows followed by exactly one wrap-around segment. It is made of the end point of
  the last full window, index \<open>n_segments * (degree - 1)\<close>, of the unconsumed points
  behind it, and of as many points from the start of the trajectory as it takes to reach
  \<open>degree\<close> control points, at least one; it has exactly \<open>degree\<close> control points.
  If \<^verbatim>\<open>closed_curve\<close> is false the segments are the full windows and nothing else.
  Nothing is said of a closed curve whose windows consume every point.
\<close>

theorem decasteljau_closing_segment:
  assumes "2 < length trajectory" "2 \<le> unat degree" "unat degree \<le> length trajectory"
    "length trajectory < 2 ^ 31"
  shows "(closed_curve \<and>
          spec_unconsumed_points trajectory (unat degree)
            (nat (spec_n_segments (length trajectory) (unat degree))) \<noteq> [] \<longrightarrow>
            segments_control_points trajectory degree closed_curve
              = Inr (map (spec_window trajectory (unat degree))
                       [0..<nat (spec_n_segments (length trajectory) (unat degree))]
                     @ [trajectory ! (nat (spec_n_segments (length trajectory) (unat degree))
                                      * (unat degree - 1))
                        # spec_unconsumed_points trajectory (unat degree)
                            (nat (spec_n_segments (length trajectory) (unat degree)))
                        @ take (unat degree - 1
                                - length (spec_unconsumed_points trajectory (unat degree)
                                    (nat (spec_n_segments (length trajectory) (unat degree)))))
                            trajectory])) \<and>
         length (trajectory ! (nat (spec_n_segments (length trajectory) (unat degree))
                               * (unat degree - 1))
                 # spec_unconsumed_points trajectory (unat degree)
                     (nat (spec_n_segments (length trajectory) (unat degree)))
                 @ take (unat degree - 1
                         - length (spec_unconsumed_points trajectory (unat degree)
                             (nat (spec_n_segments (length trajectory) (unat degree)))))
                     trajectory) = unat degree \<and>
         0 < unat degree - 1
             - length (spec_unconsumed_points trajectory (unat degree)
                 (nat (spec_n_segments (length trajectory) (unat degree)))) \<and>
         trajectory ! (nat (spec_n_segments (length trajectory) (unat degree)) * (unat degree - 1))
           = last (spec_window trajectory (unat degree)
                     (nat (spec_n_segments (length trajectory) (unat degree)) - 1)) \<and>
         (\<not> closed_curve \<longrightarrow>
            segments_control_points trajectory degree closed_curve
              = Inr (map (spec_window trajectory (unat degree))
                       [0..<nat (spec_n_segments (length trajectory) (unat degree))]))"
proof -
  let ?d = "unat degree" and ?len = "length trajectory"
  let ?N = "nat (spec_n_segments ?len ?d)"
  let ?rest = "spec_unconsumed_points trajectory ?d ?N"
  let ?wrap = "trajectory ! (?N * (?d - 1)) # ?rest @ take (?d - 1 - length ?rest) trajectory"
  note parts = spec_wrap_around_segment_parts [OF assms(2,3)]
  have N: "?N = (?len - ?d) div (?d - 1) + 1"
    unfolding spec_n_segments_value [OF assms(2,3)] by (rule nat_int)
  have segs: "segments_control_points trajectory degree closed_curve
      = Inr (map (spec_window trajectory ?d) [0..<?N]
             @ (if closed_curve then [spec_wrap_around_segment trajectory ?d ?N] else []))"
    unfolding segments_control_points_value [OF assms(2,3,4)] spec_segments_def Let_def ..
  have closed: "segments_control_points trajectory degree closed_curve
      = Inr (map (spec_window trajectory ?d) [0..<?N] @ [?wrap])"
    if "closed_curve \<and> ?rest \<noteq> []"
    using that segs unfolding parts(1) by (simp only: if_True)
  have "length (spec_wrap_around_segment trajectory ?d ?N) = ?d"
    unfolding N using assms(2,3) by (rule length_spec_wrap_around_segment)
  then have size: "length ?wrap = ?d"
    unfolding parts(1) .
  have leading: "0 < ?d - 1 - length ?rest"
    using parts(2) by simp
  have "open": "segments_control_points trajectory degree closed_curve
      = Inr (map (spec_window trajectory ?d) [0..<?N])"
    if "\<not> closed_curve"
    using that segs by simp
  from closed size leading parts(3) "open" show ?thesis
    by blast
qed

text \<open>
  The theorem at a trajectory of 6 points with \<^verbatim>\<open>degree = 4\<close>: one full window, two
  points unconsumed, and the closing segment made of the end point of the window, of
  those two and of the first point.
\<close>

lemma spec_6_4: "spec_n_segments 6 4 = 1"
  by (simp add: spec_n_segments_def)

theorem decasteljau_closing_segment_witness:
  "2 < length [10, 11, 12, 13, 14, 15 :: real] \<and> 2 \<le> unat (4 :: uint) \<and>
   unat (4 :: uint) \<le> length [10, 11, 12, 13, 14, 15 :: real] \<and>
   length [10, 11, 12, 13, 14, 15 :: real] < 2 ^ 31 \<and>
   spec_unconsumed_points [10, 11, 12, 13, 14, 15 :: real] 4 1 = [14, 15] \<and>
   segments_control_points [10, 11, 12, 13, 14, 15 :: real] 4 True
     = Inr [[10, 11, 12, 13], [13, 14, 15, 10]] \<and>
   segments_control_points [10, 11, 12, 13, 14, 15 :: real] 4 False
     = Inr [[10, 11, 12, 13]]"
proof -
  have len: "length [10, 11, 12, 13, 14, 15 :: real] = 6" and d: "unat (4 :: uint) = 4"
    by simp_all
  have pre: "2 < length [10, 11, 12, 13, 14, 15 :: real]" "2 \<le> unat (4 :: uint)"
    "unat (4 :: uint) \<le> length [10, 11, 12, 13, 14, 15 :: real]"
    "length [10, 11, 12, 13, 14, 15 :: real] < 2 ^ 31"
    by simp_all
  have upt: "[0..<nat 1] = [0]"
    by (simp add: upt_rec)
  have rest: "spec_unconsumed_points [10, 11, 12, 13, 14, 15 :: real] 4 (nat 1) = [14, 15]"
    by (simp add: spec_unconsumed_points_def)
  from decasteljau_closing_segment [OF pre, of True, unfolded len d spec_6_4 rest] upt
  have "segments_control_points [10, 11, 12, 13, 14, 15 :: real] 4 True
     = Inr [[10, 11, 12, 13], [13, 14, 15, 10]]"
    by (simp add: spec_window_def)
  moreover
  from decasteljau_closing_segment [OF pre, of False, unfolded len d spec_6_4 rest] upt
  have "segments_control_points [10, 11, 12, 13, 14, 15 :: real] 4 False
     = Inr [[10, 11, 12, 13]]"
    by (simp add: spec_window_def)
  moreover have "spec_unconsumed_points [10, 11, 12, 13, 14, 15 :: real] 4 1 = [14, 15]"
    by (simp add: spec_unconsumed_points_def)
  ultimately show ?thesis
    using pre by (intro conjI)
qed

lemma spec_7_3: "spec_n_segments 7 3 = 3"
  by (simp add: spec_n_segments_def)

lemma spec_6_3: "spec_n_segments 6 3 = 2"
  by (simp add: spec_n_segments_def)

lemma closed_5_3:
  "n_segments (length [10, 11, 12, 13, 14 :: real]) 3 = Inr 2 \<and>
   segments_control_points [10, 11, 12, 13, 14 :: real] 3 True
     = Inr [[10, 11, 12], [12, 13, 14], [14, 10, 11]]"
proof -
  have len: "length [10, 11, 12, 13, 14 :: real] = 5" and d: "unat (3 :: uint) = 3"
    by simp_all
  have pre: "2 \<le> unat (3 :: uint)" "unat (3 :: uint) \<le> length [10, 11, 12, 13, 14 :: real]"
    "length [10, 11, 12, 13, 14 :: real] < 2 ^ 31"
    by simp_all
  have upt: "[0..<nat 2] = [0, Suc 0]"
    by (simp add: upt_rec)
  from n_segments_value [OF pre]
  have "n_segments (length [10, 11, 12, 13, 14 :: real]) 3 = Inr 2"
    by simp
  moreover
  from segments_control_points_value
      [OF pre, of True, unfolded spec_segments_def Let_def len d spec_5_3] upt
  have "segments_control_points [10, 11, 12, 13, 14 :: real] 3 True
     = Inr [[10, 11, 12], [12, 13, 14], [14, 10, 11]]"
    by (simp add: spec_window_def spec_wrap_around_segment_def spec_leftover_points_def)
  ultimately show ?thesis ..
qed

lemma closed_6_3:
  "n_segments (length [10, 11, 12, 13, 14, 15 :: real]) 3 = Inr 2 \<and>
   segments_control_points [10, 11, 12, 13, 14, 15 :: real] 3 True
     = Inr [[10, 11, 12], [12, 13, 14], [14, 15, 10]]"
proof -
  have len: "length [10, 11, 12, 13, 14, 15 :: real] = 6" and d: "unat (3 :: uint) = 3"
    by simp_all
  have pre: "2 \<le> unat (3 :: uint)" "unat (3 :: uint) \<le> length [10, 11, 12, 13, 14, 15 :: real]"
    "length [10, 11, 12, 13, 14, 15 :: real] < 2 ^ 31"
    by simp_all
  have upt: "[0..<nat 2] = [0, Suc 0]"
    by (simp add: upt_rec)
  from n_segments_value [OF pre]
  have "n_segments (length [10, 11, 12, 13, 14, 15 :: real]) 3 = Inr 2"
    by simp
  moreover
  from segments_control_points_value
      [OF pre, of True, unfolded spec_segments_def Let_def len d spec_6_3] upt
  have "segments_control_points [10, 11, 12, 13, 14, 15 :: real] 3 True
     = Inr [[10, 11, 12], [12, 13, 14], [14, 15, 10]]"
    by (simp add: spec_window_def spec_wrap_around_segment_def spec_leftover_points_def)
  ultimately show ?thesis ..
qed

lemma closed_7_3:
  "n_segments (length [10, 11, 12, 13, 14, 15, 16 :: real]) 3 = Inr 3 \<and>
   segments_control_points [10, 11, 12, 13, 14, 15, 16 :: real] 3 True
     = Inr [[10, 11, 12], [12, 13, 14], [14, 15, 16], [16, 10, 11]]"
proof -
  have len: "length [10, 11, 12, 13, 14, 15, 16 :: real] = 7" and d: "unat (3 :: uint) = 3"
    by simp_all
  have pre: "2 \<le> unat (3 :: uint)"
    "unat (3 :: uint) \<le> length [10, 11, 12, 13, 14, 15, 16 :: real]"
    "length [10, 11, 12, 13, 14, 15, 16 :: real] < 2 ^ 31"
    by simp_all
  have upt: "[0..<nat 3] = [0, Suc 0, Suc (Suc 0)]"
    by (simp add: upt_rec)
  from n_segments_value [OF pre]
  have "n_segments (length [10, 11, 12, 13, 14, 15, 16 :: real]) 3 = Inr 3"
    by simp
  moreover
  from segments_control_points_value
      [OF pre, of True, unfolded spec_segments_def Let_def len d spec_7_3] upt
  have "segments_control_points [10, 11, 12, 13, 14, 15, 16 :: real] 3 True
     = Inr [[10, 11, 12], [12, 13, 14], [14, 15, 16], [16, 10, 11]]"
    by (simp add: spec_window_def spec_wrap_around_segment_def spec_leftover_points_def)
  ultimately show ?thesis ..
qed

lemma for_each_subscript_fails:
  "\<exists>i\<in>set is. \<not> i < length v \<Longrightarrow> for_each (subscript v) is = Inl Undefined_Behaviour"
  by (induction "is") (auto simp: subscript_def split: sum.splits)

lemma closing_segment_degree_1:
  "closing_segment [P0, P1, P2] 1 0 True = Inl Undefined_Behaviour"
proof -
  have lpi: "last_pts_idx 0 1 = 0"
    by (simp add: last_pts_idx_def to_int_def)
  have cond: "to_size_t 0 \<le> to_size_t (int (length [P0, P1, P2]) - 1)"
    by (simp add: to_size_t_def)
  have lo: "to_int (int (to_size_t (int (length [P0, P1, P2]) - 1 - 0))) = 2"
    by (simp add: to_size_t_def to_int_def)
  have cnt: "to_unsigned (int (unat (1 :: uint)) - 2 - 1) = 4294967294"
    by (simp add: to_unsigned_def)
  have trailing: "for_each (subscript [P0, P1, P2]) [nat 0..<length [P0, P1, P2]] = Inr [P0, P1, P2]"
    by (simp add: upt_rec subscript_def)
  have "\<exists>i\<in>set [0..<4294967294]. \<not> i < length [P0, P1, P2]"
    by (intro bexI [of _ 3]) simp_all
  then have leading: "for_each (subscript [P0, P1, P2]) [0..<4294967294] = Inl Undefined_Behaviour"
    by (rule for_each_subscript_fails)
  show ?thesis
    unfolding closing_segment_def Let_def lpi lo cnt using cond
    by (simp only: if_True simp_thms trailing leading sum.case)
qed

text \<open>
  The converse fails. With 5 points and \<^verbatim>\<open>degree = 3\<close>, and with the 7 points and
  \<^verbatim>\<open>degree = 3\<close> of the closed-curve scenario of the specification, the full windows
  consume every point, and a closing segment is formed all the same: the test
  \<^verbatim>\<open>last_pts_idx <= trajectory.size()-1\<close> holds whenever \<^verbatim>\<open>degree\<close> is at least 2. With 6
  points and \<^verbatim>\<open>degree = 3\<close> one point is unconsumed, and the closing segment starts
  with the end point of the last window, which the windows have consumed.

  With \<^verbatim>\<open>degree = 1\<close> and \<^verbatim>\<open>closed_curve\<close> set the checks pass and the number of
  segments is undefined. Whatever it is taken to be (here 0), the closing block collects
  all 3 trailing points, more than \<^verbatim>\<open>degree\<close>, and its second loop runs to
  \<open>2\<^sup>3\<^sup>2 - 2\<close>, reading past the end of the trajectory.
\<close>

theorem decasteljau_closing_segment_counterexample:
  "(n_segments (length [10, 11, 12, 13, 14 :: real]) 3 = Inr 2 \<and>
    spec_unconsumed_points [10, 11, 12, 13, 14 :: real] 3 2 = [] \<and>
    segments_control_points [10, 11, 12, 13, 14 :: real] 3 True
      = Inr [[10, 11, 12], [12, 13, 14], [14, 10, 11]]) \<and>
   (n_segments (length [10, 11, 12, 13, 14, 15, 16 :: real]) 3 = Inr 3 \<and>
    spec_unconsumed_points [10, 11, 12, 13, 14, 15, 16 :: real] 3 3 = [] \<and>
    segments_control_points [10, 11, 12, 13, 14, 15, 16 :: real] 3 True
      = Inr [[10, 11, 12], [12, 13, 14], [14, 15, 16], [16, 10, 11]]) \<and>
   (n_segments (length [10, 11, 12, 13, 14, 15 :: real]) 3 = Inr 2 \<and>
    spec_unconsumed_points [10, 11, 12, 13, 14, 15 :: real] 3 2 = [15] \<and>
    segments_control_points [10, 11, 12, 13, 14, 15 :: real] 3 True
      = Inr [[10, 11, 12], [12, 13, 14], [14, 15, 10]]) \<and>
   (2 < length [10, 11, 12 :: real] \<and> unat (1 :: uint) \<le> length [10, 11, 12 :: real] \<and>
    (0 :: uint) < 1 \<and>
    decasteljau (+) (-) (*) [10, 11, 12 :: real] 1 1 True = Inl Undefined_Behaviour \<and>
    closing_segment [10, 11, 12 :: real] 1 0 True = Inl Undefined_Behaviour)"
proof -
  have "spec_unconsumed_points [10, 11, 12, 13, 14 :: real] 3 2 = []"
    "spec_unconsumed_points [10, 11, 12, 13, 14, 15, 16 :: real] 3 3 = []"
    "spec_unconsumed_points [10, 11, 12, 13, 14, 15 :: real] 3 2 = [15]"
    by (simp_all add: spec_unconsumed_points_def)
  moreover have "2 < length [10, 11, 12 :: real] \<and> unat (1 :: uint) \<le> length [10, 11, 12 :: real] \<and>
    (0 :: uint) < 1 \<and>
    decasteljau (+) (-) (*) [10, 11, 12 :: real] 1 1 True = Inl Undefined_Behaviour \<and>
    closing_segment [10, 11, 12 :: real] 1 0 True = Inl Undefined_Behaviour"
    by (simp add: decasteljau_degree_1 closing_segment_degree_1)
  ultimately show ?thesis
    using closed_5_3 closed_7_3 closed_6_3 by (intro conjI) blast+
qed

section \<open>The size of the curve\<close>

lemma length_concat_map:
  "(\<And>x. x \<in> set xs \<Longrightarrow> length (f x) = c) \<Longrightarrow> length (concat (map f xs)) = length xs * c"
  by (induction xs) simp_all

lemma length_spec_segments_list:
  "length (spec_segments trajectory d closed_curve)
     = nat (spec_n_segments (length trajectory) d) + (if closed_curve then 1 else 0)"
  by (simp add: spec_segments_def Let_def)

text \<open>
  C4, for \<^verbatim>\<open>degree\<close> at least 2. For an input that passes the checks, with
  \<open>2 \<le> degree\<close>, fewer than \<open>2\<^sup>3\<^sup>1\<close> points and \<open>k_interp * degree < 2\<^sup>3\<^sup>1 - 1\<close>:
  \<^verbatim>\<open>segment_k_interp\<close> is \<open>k_interp\<close> when \<open>degree = 2\<close> and \<open>k_interp * degree\<close>
  otherwise; \<^verbatim>\<open>decasteljau\<close> returns a curve, the concatenation in segment order of
  the samples of each segment; its length is the number of segments, one more when
  \<^verbatim>\<open>closed_curve\<close> is set, times \<^verbatim>\<open>segment_k_interp\<close>. A trajectory of 5 points with
  \<open>degree = 3\<close>, \<open>k_interp = 5\<close> and an open curve gives 2 segments and 30 points.
\<close>

theorem decasteljau_output_size:
  assumes "2 < length trajectory" "2 \<le> unat degree" "unat degree \<le> length trajectory"
    "0 < k_interp" "length trajectory < 2 ^ 31" "unat k_interp * unat degree < 2 ^ 31 - 1"
  shows "segment_k_interp degree k_interp
           = int (if degree = 2 then unat k_interp else unat k_interp * unat degree) \<and>
         n_segments (length trajectory) degree
           = Inr (nat (spec_n_segments (length trajectory) (unat degree))) \<and>
         (\<exists>curve.
            decasteljau rplus rminus scale trajectory degree k_interp closed_curve = Inr curve \<and>
            curve = concat (map (spec_samples (blend rplus rminus scale) (unat degree - 1)
                                   (segment_k_interp degree k_interp))
                              (spec_segments trajectory (unat degree) closed_curve)) \<and>
            length curve
              = (nat (spec_n_segments (length trajectory) (unat degree))
                 + (if closed_curve then 1 else 0))
                * (if degree = 2 then unat k_interp else unat k_interp * unat degree)) \<and>
         (length trajectory = 5 \<and> degree = 3 \<and> k_interp = 5 \<and> \<not> closed_curve \<longrightarrow>
            n_segments (length trajectory) degree = Inr 2 \<and>
            (\<exists>curve.
               decasteljau rplus rminus scale trajectory degree k_interp closed_curve = Inr curve \<and>
               length curve = 30))"
proof -
  let ?d = "unat degree" and ?len = "length trajectory"
  let ?sk = "segment_k_interp degree k_interp"
  let ?K = "if degree = 2 then unat k_interp else unat k_interp * unat degree"
  let ?curve = "concat (map (spec_samples (blend rplus rminus scale) (?d - 1) ?sk)
                          (spec_segments trajectory ?d closed_curve))"
  have "unat k_interp * unat degree < 2 ^ 31"
    using assms(6) by simp
  then have sk: "?sk = int ?K"
    using assms(2) by (rule segment_k_interp_value)
  have N: "nat (spec_n_segments ?len ?d) = (?len - ?d) div (?d - 1) + 1"
    unfolding spec_n_segments_value [OF assms(2,3)] by (rule nat_int)
  have count: "n_segments ?len degree = Inr (nat (spec_n_segments ?len ?d))"
    unfolding N using assms(2,3,5) by (rule n_segments_value)
  have curve: "decasteljau rplus rminus scale trajectory degree k_interp closed_curve = Inr ?curve"
    using assms by (rule decasteljau_value)
  have "length ?curve = length (spec_segments trajectory ?d closed_curve) * nat ?sk"
    by (rule length_concat_map) (rule length_spec_samples)
  then have size: "length ?curve
      = (nat (spec_n_segments ?len ?d) + (if closed_curve then 1 else 0)) * ?K"
    unfolding length_spec_segments_list sk nat_int .
  have "n_segments ?len degree = Inr 2 \<and>
        (\<exists>curve. decasteljau rplus rminus scale trajectory degree k_interp closed_curve = Inr curve \<and>
                  length curve = 30)"
    if "?len = 5 \<and> degree = 3 \<and> k_interp = 5 \<and> \<not> closed_curve"
  proof -
    have "spec_n_segments 5 3 = 2"
      by (simp add: spec_n_segments_def)
    with that count size have "n_segments ?len degree = Inr 2" "length ?curve = 30"
      by simp_all
    with curve show ?thesis
      by simp
  qed
  with sk count curve size show ?thesis
    by blast
qed

theorem decasteljau_output_size_witness:
  "2 < length [10, 11, 12, 13, 14 :: real] \<and> 2 \<le> unat (3 :: uint) \<and>
   unat (3 :: uint) \<le> length [10, 11, 12, 13, 14 :: real] \<and> (0 :: uint) < 5 \<and>
   length [10, 11, 12, 13, 14 :: real] < 2 ^ 31 \<and> unat (5 :: uint) * unat (3 :: uint) < 2 ^ 31 - 1 \<and>
   segment_k_interp 3 5 = 15 \<and>
   n_segments (length [10, 11, 12, 13, 14 :: real]) 3 = Inr 2 \<and>
   (\<exists>curve. decasteljau (+) (-) (*) [10, 11, 12, 13, 14 :: real] 3 5 False = Inr curve \<and>
             length curve = 30)"
proof -
  have pre: "2 < length [10, 11, 12, 13, 14 :: real]" "2 \<le> unat (3 :: uint)"
    "unat (3 :: uint) \<le> length [10, 11, 12, 13, 14 :: real]" "(0 :: uint) < 5"
    "length [10, 11, 12, 13, 14 :: real] < 2 ^ 31" "unat (5 :: uint) * unat (3 :: uint) < 2 ^ 31 - 1"
    by simp_all
  have inst: "length [10, 11, 12, 13, 14 :: real] = 5 \<and> (3 :: uint) = 3 \<and> (5 :: uint) = 5 \<and> \<not> False"
    by simp
  note size = decasteljau_output_size [OF pre, of "(+)" "(-)" "(*)" False]
  from size have "segment_k_interp 3 5
      = int (if (3 :: uint) = 2 then unat (5 :: uint) else unat (5 :: uint) * unat (3 :: uint))"
    by (rule conjunct1)
  then have "segment_k_interp 3 5 = 15"
    by simp
  moreover from size inst
  have "n_segments (length [10, 11, 12, 13, 14 :: real]) 3 = Inr 2 \<and>
    (\<exists>curve. decasteljau (+) (-) (*) [10, 11, 12, 13, 14 :: real] 3 5 False = Inr curve \<and>
             length curve = 30)"
    by blast
  ultimately show ?thesis
    using pre by (intro conjI) blast+
qed

text \<open>
  With \<^verbatim>\<open>degree = 1\<close> the checks pass and no curve is returned: the claim does not
  hold for every input that passes the checks.
\<close>

theorem decasteljau_output_size_counterexample:
  "2 < length [10, 11, 12, 13 :: real] \<and> unat (1 :: uint) \<le> length [10, 11, 12, 13 :: real] \<and>
   (0 :: uint) < 2 \<and>
   decasteljau (+) (-) (*) [10, 11, 12, 13 :: real] 1 2 False = Inl Undefined_Behaviour"
  by (simp add: decasteljau_degree_1)

section \<open>The evaluation of a segment\<close>

lemma rounds_leave_one_point:
  assumes "2 \<le> unat (degree :: uint)" "length segment = unat degree" "length segment < 2 ^ 31"
  shows "rounds (unat (degree - 1)) (blend_round f) segment
       = Inr [spec_point f (unat degree - 1) segment]"
proof -
  have "rounds (unat (degree - 1)) (blend_round f) segment
      = Inr ((spec_round f ^^ (unat degree - 1)) segment)"
    unfolding unat_degree_minus_1 [OF assms(1)] using assms by (intro rounds_value) simp_all
  then show ?thesis
    using assms(1,2) by (simp only: spec_point_single)
qed

lemma spec_samples_degree_2:
  "spec_samples (blend rplus rminus scale) 1 sk [Q, Q']
     = map (\<lambda>i. rplus Q (scale (rminus Q' Q) (real_of_int i / real_of_int sk))) [1..sk]"
  by (simp add: spec_samples_def spec_point_def blend_def)

lemma decasteljau_degree_2:
  assumes "2 < length trajectory" "0 < k_interp" "length trajectory < 2 ^ 31"
    "unat k_interp * 2 < 2 ^ 31 - 1"
  shows "decasteljau rplus rminus scale trajectory 2 k_interp False
       = Inr (concat (map (\<lambda>s. map (\<lambda>i. rplus (trajectory ! s)
                                             (scale (rminus (trajectory ! (s + 1)) (trajectory ! s))
                                                (real_of_int i / real (unat k_interp))))
                                     [1..int (unat k_interp)])
                          [0..<length trajectory - 1]))"
proof -
  have two: "unat (2 :: uint) = 2"
    by simp
  have small: "unat k_interp * unat (2 :: uint) < 2 ^ 31"
    using assms(4) by simp
  have sk: "segment_k_interp 2 k_interp = int (unat k_interp)"
    using segment_k_interp_value [OF small] by simp
  have segs: "spec_segments trajectory 2 False
      = map (\<lambda>s. [trajectory ! s, trajectory ! (s + 1)]) [0..<length trajectory - 1]"
    using assms(1) by (intro spec_segments_degree_2) simp
  have "decasteljau rplus rminus scale trajectory 2 k_interp False
      = Inr (concat (map (spec_samples (blend rplus rminus scale) (unat (2 :: uint) - 1)
                            (segment_k_interp 2 k_interp))
                       (spec_segments trajectory (unat (2 :: uint)) False)))"
    using assms by (intro decasteljau_value) simp_all
  moreover have "spec_samples (blend rplus rminus scale) (2 - 1) (int (unat k_interp)) [Q, Q']
      = map (\<lambda>i. rplus Q (scale (rminus Q' Q) (real_of_int i / real (unat k_interp))))
          [1..int (unat k_interp)]" for Q Q'
    using spec_samples_degree_2 [of rplus rminus scale "int (unat k_interp)" Q Q']
    by (simp del: of_nat_unat)
  ultimately show ?thesis
    unfolding two sk segs map_map comp_def by (simp only:)
qed

text \<open>
  C1, for \<^verbatim>\<open>degree\<close> at least 2. For an input that passes the checks, with
  \<open>2 \<le> degree\<close>, fewer than \<open>2\<^sup>3\<^sup>1\<close> points and \<open>k_interp * degree < 2\<^sup>3\<^sup>1 - 1\<close>,
  \<^verbatim>\<open>decasteljau\<close> returns, segment after segment, the points of the segment at the
  parameters \<open>i/segment_k_interp\<close>, \<open>i = 1, ..., segment_k_interp\<close>, all in \<open>(0, 1]\<close>.
  Each point comes from \<open>degree - 1\<close> rounds, each replacing every adjacent pair
  \<open>(Q, Q')\<close> by \<^verbatim>\<open>Q.rplus(Q'.rminus(Q) * t)\<close>; the rounds leave exactly one point, the
  one appended to the curve. For \<open>degree = 2\<close> and an open curve the sample \<open>i\<close>
  of segment \<open>s\<close> is \<^verbatim>\<open>control[s].rplus(control[s+1].rminus(control[s]) * (i/k))\<close>.
\<close>

theorem decasteljau_evaluation:
  assumes "2 < length trajectory" "2 \<le> unat degree" "unat degree \<le> length trajectory"
    "0 < k_interp" "length trajectory < 2 ^ 31" "unat k_interp * unat degree < 2 ^ 31 - 1"
  shows "decasteljau rplus rminus scale trajectory degree k_interp closed_curve
           = Inr (concat (map (\<lambda>segment.
                      map (\<lambda>i. spec_point
                                 (blend rplus rminus scale
                                    (real_of_int i / real_of_int (segment_k_interp degree k_interp)))
                                 (unat degree - 1) segment)
                        [1..segment_k_interp degree k_interp])
                    (spec_segments trajectory (unat degree) closed_curve))) \<and>
         segments_control_points trajectory degree closed_curve
           = Inr (spec_segments trajectory (unat degree) closed_curve) \<and>
         (\<forall>i\<in>set [1..segment_k_interp degree k_interp].
            0 < real_of_int i / real_of_int (segment_k_interp degree k_interp) \<and>
            real_of_int i / real_of_int (segment_k_interp degree k_interp) \<le> 1) \<and>
         unat (degree - 1) = unat degree - 1 \<and>
         (\<forall>segment\<in>set (spec_segments trajectory (unat degree) closed_curve). \<forall>t.
            rounds (unat (degree - 1)) (blend_round (blend rplus rminus scale t)) segment
              = Inr [spec_point (blend rplus rminus scale t) (unat degree - 1) segment] \<and>
            (spec_round (blend rplus rminus scale t) ^^ (unat degree - 1)) segment
              = [spec_point (blend rplus rminus scale t) (unat degree - 1) segment] \<and>
            sample (blend rplus rminus scale t) degree segment
              = Inr (spec_point (blend rplus rminus scale t) (unat degree - 1) segment)) \<and>
         (degree = 2 \<and> \<not> closed_curve \<longrightarrow>
            decasteljau rplus rminus scale trajectory degree k_interp closed_curve
              = Inr (concat (map (\<lambda>s.
                         map (\<lambda>i. rplus (trajectory ! s)
                                    (scale (rminus (trajectory ! (s + 1)) (trajectory ! s))
                                       (real_of_int i / real (unat k_interp))))
                           [1..int (unat k_interp)])
                       [0..<length trajectory - 1])))"
proof -
  let ?d = "unat degree"
  let ?sk = "segment_k_interp degree k_interp"
  let ?segs = "spec_segments trajectory ?d closed_curve"
  have "decasteljau rplus rminus scale trajectory degree k_interp closed_curve
      = Inr (concat (map (spec_samples (blend rplus rminus scale) (?d - 1) ?sk) ?segs))"
    using assms by (rule decasteljau_value)
  then have curve: "decasteljau rplus rminus scale trajectory degree k_interp closed_curve
      = Inr (concat (map (\<lambda>segment.
                 map (\<lambda>i. spec_point
                            (blend rplus rminus scale (real_of_int i / real_of_int ?sk))
                            (?d - 1) segment)
                   [1..?sk])
               ?segs))"
    unfolding spec_samples_def .
  have segs: "segments_control_points trajectory degree closed_curve = Inr ?segs"
    using assms(2,3,5) by (rule segments_control_points_value)
  have params: "\<forall>i\<in>set [1..?sk].
      0 < real_of_int i / real_of_int ?sk \<and> real_of_int i / real_of_int ?sk \<le> 1"
    by (intro ballI sample_parameter_range)
  have count: "unat (degree - 1) = ?d - 1"
    using assms(2) by (rule unat_degree_minus_1)
  have each: "\<forall>segment\<in>set ?segs. \<forall>t.
      rounds (unat (degree - 1)) (blend_round (blend rplus rminus scale t)) segment
        = Inr [spec_point (blend rplus rminus scale t) (?d - 1) segment] \<and>
      (spec_round (blend rplus rminus scale t) ^^ (?d - 1)) segment
        = [spec_point (blend rplus rminus scale t) (?d - 1) segment] \<and>
      sample (blend rplus rminus scale t) degree segment
        = Inr (spec_point (blend rplus rminus scale t) (?d - 1) segment)"
  proof (intro ballI allI conjI)
    fix segment t
    assume "segment \<in> set ?segs"
    then have len: "length segment = ?d"
      using assms(2,3) by (intro length_spec_segments)
    then have short: "length segment < 2 ^ 31"
      using assms(3,5) by simp
    show "rounds (unat (degree - 1)) (blend_round (blend rplus rminus scale t)) segment
        = Inr [spec_point (blend rplus rminus scale t) (?d - 1) segment]"
      using assms(2) len short by (rule rounds_leave_one_point)
    show "(spec_round (blend rplus rminus scale t) ^^ (?d - 1)) segment
        = [spec_point (blend rplus rminus scale t) (?d - 1) segment]"
      using assms(2) len by (rule spec_point_single)
    show "sample (blend rplus rminus scale t) degree segment
        = Inr (spec_point (blend rplus rminus scale t) (?d - 1) segment)"
      using assms(2) len short by (rule sample_value)
  qed
  have linear: "decasteljau rplus rminus scale trajectory degree k_interp closed_curve
      = Inr (concat (map (\<lambda>s.
                 map (\<lambda>i. rplus (trajectory ! s)
                            (scale (rminus (trajectory ! (s + 1)) (trajectory ! s))
                               (real_of_int i / real (unat k_interp))))
                   [1..int (unat k_interp)])
               [0..<length trajectory - 1]))"
    if "degree = 2 \<and> \<not> closed_curve"
  proof -
    from that assms(6) have "unat k_interp * 2 < 2 ^ 31 - 1"
      by simp
    with assms(1,4,5) show ?thesis
      using that by (simp only: decasteljau_degree_2)
  qed
  from curve segs params count each linear show ?thesis
    by blast
qed

text \<open>
  The theorem on the real line, where \<^verbatim>\<open>rplus\<close> is the sum and \<^verbatim>\<open>rminus\<close> the
  difference: three points, \<^verbatim>\<open>degree = 2\<close>, two samples for each segment.
\<close>

theorem decasteljau_evaluation_witness:
  "2 < length [0, 2, 4 :: real] \<and> 2 \<le> unat (2 :: uint) \<and>
   unat (2 :: uint) \<le> length [0, 2, 4 :: real] \<and> (0 :: uint) < 2 \<and>
   length [0, 2, 4 :: real] < 2 ^ 31 \<and> unat (2 :: uint) * unat (2 :: uint) < 2 ^ 31 - 1 \<and>
   decasteljau (+) (-) (*) [0, 2, 4 :: real] 2 2 False = Inr [1, 2, 3, 4]"
proof -
  have pre: "2 < length [0, 2, 4 :: real]" "2 \<le> unat (2 :: uint)"
    "unat (2 :: uint) \<le> length [0, 2, 4 :: real]" "(0 :: uint) < 2"
    "length [0, 2, 4 :: real] < 2 ^ 31" "unat (2 :: uint) * unat (2 :: uint) < 2 ^ 31 - 1"
    by simp_all
  have len: "length [0, 2, 4 :: real] - 1 = 2" and k: "unat (2 :: uint) = 2"
    by simp_all
  have upt: "[0..<2] = [0, Suc 0]"
    by (simp add: upt_rec)
  have upto: "[1..int 2] = [1, 2]"
    by (simp add: upto_rec1)
  from decasteljau_evaluation [OF pre, of "(+)" "(-)" "(*)" False]
  have "decasteljau (+) (-) (*) [0, 2, 4 :: real] 2 2 False
      = Inr (concat (map (\<lambda>s.
                 map (\<lambda>i. [0, 2, 4] ! s + ([0, 2, 4] ! (s + 1) - [0, 2, 4] ! s)
                                               * (real_of_int i / real (unat (2 :: uint))))
                   [1..int (unat (2 :: uint))])
               [0..<length [0, 2, 4 :: real] - 1]))"
    by blast
  then have "decasteljau (+) (-) (*) [0, 2, 4 :: real] 2 2 False = Inr [1, 2, 3, 4]"
    unfolding len k upt upto by simp
  with pre show ?thesis
    by (intro conjI)
qed

text \<open>
  With \<^verbatim>\<open>degree = 1\<close> the checks pass, no segment is evaluated and no point is
  appended: the claim does not hold for every input that passes the checks.
\<close>

theorem decasteljau_evaluation_counterexample:
  "2 < length [0, 2, 4 :: real] \<and> unat (1 :: uint) \<le> length [0, 2, 4 :: real] \<and>
   (0 :: uint) < 3 \<and>
   decasteljau (+) (-) (*) [0, 2, 4 :: real] 1 3 False = Inl Undefined_Behaviour"
  by (simp add: decasteljau_degree_1)

section \<open>What the checks let through\<close>

text \<open>
  Once the three checks have passed, nothing in \<^verbatim>\<open>decasteljau\<close> reports a failed check:
  whatever goes wrong later is an operation without defined behaviour.
\<close>

lemma for_each_failure:
  "for_each body xs = Inl e \<Longrightarrow> \<exists>x\<in>set xs. body x = Inl e"
  by (induction xs) (auto split: sum.splits)

lemma subscript_failure: "subscript v i = Inl e \<Longrightarrow> e = Undefined_Behaviour"
  by (simp add: subscript_def split: if_splits)

lemma for_each_subscript_failure:
  "for_each (\<lambda>i. subscript v (g i)) xs = Inl e \<Longrightarrow> e = Undefined_Behaviour"
  by (blast dest: for_each_failure subscript_failure)

lemma n_segments_failure: "n_segments len degree = Inl e \<Longrightarrow> e = Undefined_Behaviour"
  by (simp add: n_segments_def Let_def split: if_splits)

lemma full_segments_failure:
  assumes "full_segments trajectory degree nseg = Inl e"
  shows "e = Undefined_Behaviour"
proof -
  from assms obtain t where
    "for_each (\<lambda>n. subscript trajectory ((t * unat (degree - 1) + n) mod 2 ^ 32)) [0..<unat degree]
       = Inl e"
    unfolding full_segments_def by (blast dest: for_each_failure)
  then show ?thesis
    by (rule for_each_subscript_failure)
qed

lemma closing_segment_failure:
  assumes "closing_segment trajectory degree nseg closed_curve = Inl e"
  shows "e = Undefined_Behaviour"
proof -
  from assms obtain "is" where "for_each (\<lambda>i. subscript trajectory i) is = Inl e"
    unfolding closing_segment_def Let_def by (auto split: if_splits sum.splits)
  then show ?thesis
    by (rule for_each_subscript_failure)
qed

lemma segments_control_points_failure:
  "segments_control_points trajectory degree closed_curve = Inl e \<Longrightarrow> e = Undefined_Behaviour"
  unfolding segments_control_points_def
  by (auto split: sum.splits
      dest: n_segments_failure full_segments_failure closing_segment_failure)

lemma blend_round_failure:
  assumes "blend_round f Qs = Inl e"
  shows "e = Undefined_Behaviour"
proof -
  from assms obtain q where
    "(case subscript Qs q of
        Inl e \<Rightarrow> Inl e
      | Inr Q \<Rightarrow> (case subscript Qs (q + 1) of Inl e \<Rightarrow> Inl e | Inr Q' \<Rightarrow> Inr (f Q Q'))) = Inl e"
    unfolding blend_round_def by (blast dest: for_each_failure)
  then show ?thesis
    by (auto split: sum.splits dest: subscript_failure)
qed

lemma rounds_failure:
  "rounds i (blend_round f) Qs = Inl e \<Longrightarrow> e = Undefined_Behaviour"
  by (induction i arbitrary: Qs) (auto split: sum.splits dest: blend_round_failure)

lemma sample_failure: "sample f degree segment = Inl e \<Longrightarrow> e = Undefined_Behaviour"
  unfolding sample_def by (auto split: sum.splits dest: rounds_failure subscript_failure)

lemma fit_segment_failure:
  assumes "fit_segment rplus rminus scale degree sk segment = Inl e"
  shows "e = Undefined_Behaviour"
proof (cases "sk = 2 ^ 31 - 1")
  case True
  with assms show ?thesis
    by (simp add: fit_segment_def)
next
  case False
  with assms obtain t where
    "sample (blend rplus rminus scale (real_of_int t / real_of_int sk)) degree segment = Inl e"
    unfolding fit_segment_def by (auto dest: for_each_failure)
  then show ?thesis
    by (rule sample_failure)
qed

lemma decasteljau_failure:
  assumes "2 < length trajectory" "unat degree \<le> length trajectory" "0 < k_interp"
    "decasteljau rplus rminus scale trajectory degree k_interp closed_curve = Inl e"
  shows "e = Undefined_Behaviour"
proof -
  from assms have "segments_control_points trajectory degree closed_curve = Inl e \<or>
      (\<exists>segs. for_each (fit_segment rplus rminus scale degree (segment_k_interp degree k_interp)) segs
                 = Inl e)"
    unfolding decasteljau_def MANIF_CHECK_def by (auto split: sum.splits)
  then show ?thesis
    by (blast dest: segments_control_points_failure for_each_failure fit_segment_failure)
qed

lemma uint_le_1: "(degree :: uint) \<le> 1 \<Longrightarrow> degree = 0 \<or> degree = 1"
  by (metis One_nat_def le_Suc_eq le_zero_eq unat_1 unat_eq_zero word_le_nat_alt word_unat_eq_iff)

text \<open>
  C10, with the value of \<^verbatim>\<open>n_segments\<close> at \<^verbatim>\<open>degree = 0\<close> made precise. For a
  trajectory of more than 2 points, \<open>k_interp > 0\<close> and \<open>degree \<le> 1\<close> all three checks
  pass and the call does not end with a failed check. For \<open>degree = 1\<close> the divisor
  \<^verbatim>\<open>degree-1\<close> is 0, the number of segments has no defined value and neither has the
  call. For \<open>degree = 0\<close> the divisor wraps around to \<open>2\<^sup>3\<^sup>2 - 1\<close>; for a trajectory of
  fewer than \<open>2\<^sup>3\<^sup>2 - 1\<close> points the number of segments is then 1, the one segment
  has no control point and the call returns the empty curve.
\<close>

theorem decasteljau_degree_below_2:
  assumes "2 < length trajectory" "0 < k_interp" "degree \<le> 1"
  shows "(2 < length trajectory \<and> unat degree \<le> length trajectory \<and> 0 < k_interp) \<and>
         decasteljau rplus rminus scale trajectory degree k_interp closed_curve \<noteq> Inl Check_Failed \<and>
         (degree = 1 \<longrightarrow>
            unat (degree - 1) = 0 \<and>
            n_segments (length trajectory) degree = Inl Undefined_Behaviour \<and>
            decasteljau rplus rminus scale trajectory degree k_interp closed_curve
              = Inl Undefined_Behaviour) \<and>
         (degree = 0 \<longrightarrow>
            unat (degree - 1) = 2 ^ 32 - 1 \<and>
            (length trajectory < 2 ^ 32 - 1 \<longrightarrow>
               n_segments (length trajectory) degree = Inr 1 \<and>
               segments_control_points trajectory degree closed_curve = Inr [[]] \<and>
               decasteljau rplus rminus scale trajectory degree k_interp closed_curve = Inr []))"
proof -
  from assms(3) have "degree = 0 \<or> degree = 1"
    by (rule uint_le_1)
  then have "unat degree \<le> 1"
    by auto
  with assms(1) have second: "unat degree \<le> length trajectory"
    by linarith
  have "decasteljau rplus rminus scale trajectory degree k_interp closed_curve \<noteq> Inl Check_Failed"
    using decasteljau_failure [OF assms(1) second assms(2)] by blast
  moreover have "unat (1 - 1 :: uint) = 0" "n_segments (length trajectory) 1 = Inl Undefined_Behaviour"
    by (simp_all add: n_segments_def)
  moreover have "unat (0 - 1 :: uint) = 2 ^ 32 - 1"
    by (simp add: unsigned_minus_1_eq_mask mask_eq_exp_minus_1)
  moreover have "segments_control_points trajectory 0 closed_curve = Inr [[]]"
    if "length trajectory < 2 ^ 32 - 1"
  proof -
    from assms(1) have "0 < length trajectory"
      by linarith
    then show ?thesis
      using that by (rule segments_control_points_degree_0)
  qed
  ultimately show ?thesis
    using assms(1,2) second
    by (auto simp: decasteljau_degree_1 decasteljau_degree_0 n_segments_degree_0)
qed

theorem decasteljau_degree_below_2_witness:
  "2 < length [10, 11, 12 :: real] \<and> (0 :: uint) < 4 \<and> (1 :: uint) \<le> 1 \<and> (0 :: uint) \<le> 1 \<and>
   decasteljau (+) (-) (*) [10, 11, 12 :: real] 1 4 True = Inl Undefined_Behaviour \<and>
   decasteljau (+) (-) (*) [10, 11, 12 :: real] 0 4 True = Inr []"
  using decasteljau_degree_below_2 [of "[10, 11, 12 :: real]" 4 1 "(+)" "(-)" "(*)" True]
    decasteljau_degree_below_2 [of "[10, 11, 12 :: real]" 4 0 "(+)" "(-)" "(*)" True]
  by simp

text \<open>
  At \<^verbatim>\<open>degree = 0\<close> the number of segments is defined: it is 1, the one segment has no
  control point, and the call returns normally.
\<close>

theorem decasteljau_degree_below_2_counterexample:
  "2 < length [10, 11, 12 :: real] \<and> (0 :: uint) < 4 \<and> (0 :: uint) \<le> 1 \<and>
   n_segments (length [10, 11, 12 :: real]) 0 = Inr 1 \<and>
   segments_control_points [10, 11, 12 :: real] 0 False = Inr [[]] \<and>
   decasteljau (+) (-) (*) [10, 11, 12 :: real] 0 4 False = Inr []"
proof -
  have "length [10, 11, 12 :: real] < 2 ^ 32 - 1" "0 < length [10, 11, 12 :: real]"
    by simp_all
  then have "n_segments (length [10, 11, 12 :: real]) 0 = Inr 1"
    and "closing_segment [10, 11, 12 :: real] 0 1 False = Inr []"
    by (simp_all only: n_segments_degree_0 closing_segment_degree_0)
  then have "segments_control_points [10, 11, 12 :: real] 0 False = Inr [[]]"
    unfolding segments_control_points_def
    by (simp only: full_segments_degree_0 sum.case append_Nil2)
  moreover have "decasteljau (+) (-) (*) [10, 11, 12 :: real] 0 4 False = Inr []"
    by (rule decasteljau_degree_0) simp_all
  ultimately show ?thesis
    using \<open>n_segments (length [10, 11, 12 :: real]) 0 = Inr 1\<close> by simp
qed

section \<open>Matrix algebra\<close>

lemma mat3_cases:
  obtains a b c d e f g h i where "M = ((a, b, c), (d, e, f), (g, h, i))"
  by (metis prod_cases3)

lemma mat_mul_assoc: "mat_mul (mat_mul A B) C = mat_mul A (mat_mul B C)"
  by (cases A rule: mat3_cases, cases B rule: mat3_cases, cases C rule: mat3_cases)
    (simp add: algebra_simps)

lemma mat_mul_add_left: "mat_mul A (mat_add B C) = mat_add (mat_mul A B) (mat_mul A C)"
  by (cases A rule: mat3_cases, cases B rule: mat3_cases, cases C rule: mat3_cases)
    (simp add: algebra_simps)

lemma mat_mul_add_right: "mat_mul (mat_add A B) C = mat_add (mat_mul A C) (mat_mul B C)"
  by (cases A rule: mat3_cases, cases B rule: mat3_cases, cases C rule: mat3_cases)
    (simp add: algebra_simps)

lemma mat_add_assoc: "mat_add (mat_add A B) C = mat_add A (mat_add B C)"
  by (cases A rule: mat3_cases, cases B rule: mat3_cases, cases C rule: mat3_cases) simp

lemma mat_add_commute: "mat_add A B = mat_add B A"
  by (cases A rule: mat3_cases, cases B rule: mat3_cases) simp

lemma mat_add_left_commute: "mat_add A (mat_add B C) = mat_add B (mat_add A C)"
  by (cases A rule: mat3_cases, cases B rule: mat3_cases, cases C rule: mat3_cases) simp

lemma mat_mul_identity [simp]: "mat_mul mat_identity A = A" "mat_mul A mat_identity = A"
  by (cases A rule: mat3_cases, simp add: mat_identity_def)+

lemma mat_mul_zero [simp]: "mat_mul mat_zero A = mat_zero" "mat_mul A mat_zero = mat_zero"
  by (cases A rule: mat3_cases, simp add: mat_zero_def)+

lemma mat_add_zero [simp]: "mat_add mat_zero A = A" "mat_add A mat_zero = A"
  by (cases A rule: mat3_cases, simp add: mat_zero_def)+

lemma mat_add_neg [simp]: "mat_add (mat_neg A) A = mat_zero" "mat_add A (mat_neg A) = mat_zero"
  by (cases A rule: mat3_cases, simp add: mat_zero_def)+

lemma mat_mul_neg_left: "mat_mul (mat_neg A) B = mat_neg (mat_mul A B)"
  by (cases A rule: mat3_cases, cases B rule: mat3_cases) simp

lemma mat_vec_mul: "mat_vec (mat_mul A B) v = mat_vec A (mat_vec B v)"
  by (cases A rule: mat3_cases, cases B rule: mat3_cases, cases v rule: prod_cases3)
    (simp add: algebra_simps)

lemma mat_vec_neg: "mat_vec (mat_neg A) v = vec_neg (mat_vec A v)"
  by (cases A rule: mat3_cases, cases v rule: prod_cases3) simp

lemma mat_vec_identity [simp]: "mat_vec mat_identity v = v"
  by (cases v rule: prod_cases3) (simp add: mat_identity_def)

lemma mat_vec_vec_neg: "mat_vec A (vec_neg v) = vec_neg (mat_vec A v)"
  by (cases A rule: mat3_cases, cases v rule: prod_cases3) simp

lemma skew_neg: "skew (vec_neg v) = mat_neg (skew v)"
  by (cases v rule: prod_cases3) simp

lemma vec_add_neg [simp]: "vec_add (vec_neg v) v = (0, 0, 0)"
  by (cases v rule: prod_cases3) simp

lemma skew_conjugate: "mat_mul (mat_transpose M) (mat_mul (skew (mat_vec M v)) M) = 
   mat_mul ((det M, 0, 0), (0, det M, 0), (0, 0, det M)) (skew v)"
  by (cases M rule: mat3_cases, cases v rule: prod_cases3) (simp add: algebra_simps)

lemma Jacobian_mul_assoc:
  "Jacobian_mul (Jacobian_mul J K) L = Jacobian_mul J (Jacobian_mul K L)"
  by (simp add: Jacobian_mul_def mat_mul_add_left mat_mul_add_right mat_mul_assoc
      mat_add_assoc mat_add_left_commute)

lemma Jacobian_mul_Identity [simp]:
  "Jacobian_mul Jacobian_Identity J = J" "Jacobian_mul J Jacobian_Identity = J"
  by (simp_all add: Jacobian_mul_def Jacobian_Identity_def)

lemma right_inverse_unique:
  assumes "Jacobian_mul K J = Jacobian_Identity" "Jacobian_mul J X = Jacobian_Identity"
  shows "X = K"
proof -
  have "X = Jacobian_mul (Jacobian_mul K J) X"
    using assms(1) by simp
  also have "\<dots> = Jacobian_mul K (Jacobian_mul J X)"
    by (rule Jacobian_mul_assoc)
  also have "\<dots> = K"
    using assms(2) by simp
  finally show ?thesis .
qed

section \<open>Unit quaternions\<close>

lemma rotation_homogeneous:
  "unit_quaternion q \<Longrightarrow> SO3_rotation q = homogeneous_rotation q"
  by (cases q rule: prod_cases4) (simp add: unit_quaternion_def algebra_simps)

lemma homogeneous_orthogonal:
  "mat_mul (homogeneous_rotation q) (mat_transpose (homogeneous_rotation q))
     = ((squared_norm q * squared_norm q, 0, 0),
        (0, squared_norm q * squared_norm q, 0),
        (0, 0, squared_norm q * squared_norm q))"
  by (cases q rule: prod_cases4) (simp add: algebra_simps)

lemma homogeneous_orthogonal':
  "mat_mul (mat_transpose (homogeneous_rotation q)) (homogeneous_rotation q)
     = ((squared_norm q * squared_norm q, 0, 0),
        (0, squared_norm q * squared_norm q, 0),
        (0, 0, squared_norm q * squared_norm q))"
  by (cases q rule: prod_cases4) (simp add: algebra_simps)

lemma homogeneous_det:
  "det (homogeneous_rotation q) = squared_norm q * squared_norm q * squared_norm q"
  by (cases q rule: prod_cases4) (simp add: algebra_simps)

lemma homogeneous_mul:
  "homogeneous_rotation (quat_mul q r) = mat_mul (homogeneous_rotation q) (homogeneous_rotation r)"
  by (cases q rule: prod_cases4, cases r rule: prod_cases4) (simp add: algebra_simps)

lemma squared_norm_mul:
  "squared_norm (quat_mul q r) = squared_norm q * squared_norm r"
  by (cases q rule: prod_cases4, cases r rule: prod_cases4) (simp add: algebra_simps)

lemma rotation_inverse: "SO3_rotation (SO3_inverse q) = mat_transpose (SO3_rotation q)"
  by (cases q rule: prod_cases4) simp

lemma rotation_orthogonal:
  assumes "unit_quaternion q"
  shows "mat_mul (SO3_rotation q) (mat_transpose (SO3_rotation q)) = mat_identity"
    and "mat_mul (mat_transpose (SO3_rotation q)) (SO3_rotation q) = mat_identity"
  using assms
  by (simp_all add: rotation_homogeneous homogeneous_orthogonal homogeneous_orthogonal'
      unit_quaternion_def mat_identity_def)

lemma rotation_det:
  assumes "unit_quaternion q"
  shows "det (SO3_rotation q) = 1"
  using assms by (simp add: rotation_homogeneous homogeneous_det unit_quaternion_def)

lemma unit_quaternion_inverse: "unit_quaternion q \<Longrightarrow> unit_quaternion (SO3_inverse q)"
  by (cases q rule: prod_cases4) (simp add: unit_quaternion_def)

lemma compose_unit:
  assumes "unit_quaternion q" "unit_quaternion r"
  shows "SO3_compose q r = quat_mul q r" and "unit_quaternion (SO3_compose q r)"
proof -
  have "squared_norm (quat_mul q r) = 1"
    using assms by (simp add: squared_norm_mul unit_quaternion_def)
  then show "SO3_compose q r = quat_mul q r"
    by (cases "quat_mul q r" rule: prod_cases4) (simp add: SO3_compose_def normalized_def)
  with \<open>squared_norm (quat_mul q r) = 1\<close> show "unit_quaternion (SO3_compose q r)"
    by (simp add: unit_quaternion_def)
qed

lemma rotation_compose:
  assumes "unit_quaternion q" "unit_quaternion r"
  shows "SO3_rotation (SO3_compose q r) = mat_mul (SO3_rotation q) (SO3_rotation r)"
  using assms compose_unit [OF assms]
  by (simp add: rotation_homogeneous homogeneous_mul)

lemma compose_inverse:
  assumes "unit_quaternion q"
  shows "SO3_compose q (SO3_inverse q) = SO3_setIdentity"
proof -
  have "quat_mul q (SO3_inverse q) = (0, 0, 0, squared_norm q)"
    by (cases q rule: prod_cases4) (simp add: algebra_simps)
  moreover have "SO3_compose q (SO3_inverse q) = quat_mul q (SO3_inverse q)"
    using assms by (intro compose_unit unit_quaternion_inverse)
  ultimately show ?thesis
    using assms by (simp add: SO3_setIdentity_def unit_quaternion_def)
qed

lemma skew_rotated:
  assumes "unit_quaternion q"
  shows "mat_mul (mat_transpose (SO3_rotation q)) (mat_mul (skew v) (SO3_rotation q))
       = skew (mat_vec (mat_transpose (SO3_rotation q)) v)"
proof -
  let ?R = "SO3_rotation q"
  let ?w = "mat_vec (mat_transpose ?R) v"
  have "mat_vec ?R ?w = v"
    using assms by (simp add: rotation_orthogonal flip: mat_vec_mul)
  then have "mat_mul (mat_transpose ?R) (mat_mul (skew v) ?R)
      = mat_mul ((det ?R, 0, 0), (0, det ?R, 0), (0, 0, det ?R)) (skew ?w)"
    using skew_conjugate [of ?R ?w] by simp
  also have "\<dots> = skew ?w"
    using assms by (simp add: rotation_det flip: mat_identity_def)
  finally show ?thesis .
qed

section \<open>Inverse, adjoint and composition of transforms\<close>

lemma SE3_adj_blocks:
  "SE3_adj m = \<lparr>topLeftCorner = SE3_rotation m, topRightCorner = mat_zero,
               bottomLeftCorner = mat_mul (skew (SE3_translation m)) (SE3_rotation m),
               bottomRightCorner = SE3_rotation m\<rparr>"
  by (cases "head3 m" rule: prod_cases3)
    (simp add: SE3_adj_def Jacobian_Zero_def SE3_x_def SE3_y_def SE3_z_def SE3_translation_def)

lemma SE3_inverse_parts:
  "SE3_translation (fst (SE3_inverse m J))
     = vec_neg (mat_vec (mat_transpose (SE3_rotation m)) (SE3_translation m))"
  "SE3_asSO3 (fst (SE3_inverse m J)) = SO3_inverse (SE3_asSO3 m)"
  "SE3_rotation (fst (SE3_inverse m J)) = mat_transpose (SE3_rotation m)"
  by (simp_all add: SE3_inverse_def Manifold_def SE3_translation_def SE3_asSO3_def
      SE3_rotation_def mat_vec_neg rotation_inverse)

lemma SE3_adj_inverse:
  assumes "unit_quaternion (SE3_asSO3 m)"
  shows "Jacobian_mul (SE3_adj (fst (SE3_inverse m J))) (SE3_adj m) = Jacobian_Identity"
proof -
  let ?R = "SE3_rotation m" and ?t = "SE3_translation m"
  have orth: "mat_mul (mat_transpose ?R) ?R = mat_identity"
    using assms by (simp add: SE3_rotation_def rotation_orthogonal)
  have "mat_mul (mat_transpose ?R) (mat_mul (skew ?t) ?R) = skew (mat_vec (mat_transpose ?R) ?t)"
    using assms unfolding SE3_rotation_def by (rule skew_rotated)
  then have "mat_add (mat_mul (mat_mul (skew (vec_neg (mat_vec (mat_transpose ?R) ?t)))
                                 (mat_transpose ?R)) ?R)
                     (mat_mul (mat_transpose ?R) (mat_mul (skew ?t) ?R)) = mat_zero"
    by (simp add: mat_mul_assoc orth skew_neg)
  then show ?thesis
    by (simp add: SE3_adj_blocks SE3_inverse_parts Jacobian_mul_def Jacobian_Identity_def orth)
qed

lemma unit_half: "unit_quaternion (1 / 2, 1 / 2, 1 / 2, 1 / 2)"
  by (simp add: unit_quaternion_def)

lemma rotation_half: "SO3_rotation (1 / 2, 1 / 2, 1 / 2, 1 / 2) = ((0, 0, 1), (1, 0, 0), (0, 1, 0))"
  by simp

lemma adj_example:
  "SE3_adj (Manifold (4, 5, 6) (1 / 2, 1 / 2, 1 / 2, 1 / 2))
     = \<lparr>topLeftCorner = ((0, 0, 1), (1, 0, 0), (0, 1, 0)), topRightCorner = mat_zero,
        bottomLeftCorner = ((- 6, 5, 0), (0, - 4, 6), (4, 0, - 5)),
        bottomRightCorner = ((0, 0, 1), (1, 0, 0), (0, 1, 0))\<rparr>"
  by (simp add: SE3_adj_blocks SE3_rotation_def SE3_asSO3_def SE3_translation_def Manifold_def)

lemma inverse_example:
  "Jacobian_mul (SE3_adj (Manifold (4, 5, 6) (1 / 2, 1 / 2, 1 / 2, 1 / 2)))
     (Jacobian_inverse (SE3_adj (Manifold (4, 5, 6) (1 / 2, 1 / 2, 1 / 2, 1 / 2))))
   = Jacobian_Identity"
  unfolding adj_example
  by (simp add: Jacobian_inverse_def Jacobian_mul_def Jacobian_Identity_def mat_inverse_def Let_def
      mat_zero_def mat_identity_def)

text \<open>
  C7. For an SE(3) element with rotation matrix \<open>R\<close> and translation \<open>t\<close>, its
  quaternion of unit norm, \<^verbatim>\<open>inverse()\<close> returns the element with translation
  \<open>- R\<^sup>T t\<close> and with the inverse quaternion, whose rotation matrix \<open>R\<^sup>T\<close> is the
  inverse of \<open>R\<close>. A requested Jacobian is \<open>- adj()\<close>, and none is written otherwise.
  The corners of \<^verbatim>\<open>adj()\<close>: \<open>R\<close> top left and bottom right, \<open>skew(t) R\<close> bottom left,
  zero top right.
\<close>

theorem SE3_inverse_correct:
  assumes "unit_quaternion (SE3_asSO3 m)"
  shows "fst (SE3_inverse m J_minv_m)
           = Manifold (vec_neg (mat_vec (mat_transpose (SE3_rotation m)) (SE3_translation m)))
                      (SO3_inverse (SE3_asSO3 m)) \<and>
         SE3_rotation (fst (SE3_inverse m J_minv_m)) = mat_transpose (SE3_rotation m) \<and>
         mat_mul (SE3_rotation (fst (SE3_inverse m J_minv_m))) (SE3_rotation m) = mat_identity \<and>
         mat_mul (SE3_rotation m) (SE3_rotation (fst (SE3_inverse m J_minv_m))) = mat_identity \<and>
         unit_quaternion (SE3_asSO3 (fst (SE3_inverse m J_minv_m))) \<and>
         snd (SE3_inverse m True) = Some (Jacobian_neg (SE3_adj m)) \<and>
         snd (SE3_inverse m False) = None \<and>
         SE3_adj m = \<lparr>topLeftCorner = SE3_rotation m, topRightCorner = mat_zero,
                      bottomLeftCorner = mat_mul (skew (SE3_translation m)) (SE3_rotation m),
                      bottomRightCorner = SE3_rotation m\<rparr>"
proof -
  have R: "SE3_rotation (fst (SE3_inverse m J_minv_m)) = mat_transpose (SE3_rotation m)"
    by (rule SE3_inverse_parts)
  have orth: "mat_mul (SE3_rotation (fst (SE3_inverse m J_minv_m))) (SE3_rotation m) = mat_identity"
    "mat_mul (SE3_rotation m) (SE3_rotation (fst (SE3_inverse m J_minv_m))) = mat_identity"
    unfolding R using assms by (simp_all add: SE3_rotation_def rotation_orthogonal)
  have result: "fst (SE3_inverse m J_minv_m)
      = Manifold (vec_neg (mat_vec (mat_transpose (SE3_rotation m)) (SE3_translation m)))
                 (SO3_inverse (SE3_asSO3 m))"
    by (simp add: SE3_inverse_def mat_vec_neg)
  have u: "unit_quaternion (SE3_asSO3 (fst (SE3_inverse m J_minv_m)))"
    using assms by (simp add: SE3_inverse_parts unit_quaternion_inverse)
  have J: "snd (SE3_inverse m True) = Some (Jacobian_neg (SE3_adj m))"
    "snd (SE3_inverse m False) = None"
    by (simp_all add: SE3_inverse_def)
  from result R orth u J SE3_adj_blocks [of m] show ?thesis
    by (intro conjI)
qed

theorem SE3_inverse_correct_witness:
  "unit_quaternion (SE3_asSO3 (Manifold (1, 2, 3) (1 / 2, 1 / 2, 1 / 2, 1 / 2))) \<and>
   fst (SE3_inverse (Manifold (1, 2, 3) (1 / 2, 1 / 2, 1 / 2, 1 / 2)) True)
     = Manifold (- 2, - 3, - 1) (- (1 / 2), - (1 / 2), - (1 / 2), 1 / 2) \<and>
   SE3_rotation (fst (SE3_inverse (Manifold (1, 2, 3) (1 / 2, 1 / 2, 1 / 2, 1 / 2)) True))
     = ((0, 1, 0), (0, 0, 1), (1, 0, 0))"
proof -
  have u: "unit_quaternion (SE3_asSO3 (Manifold (1, 2, 3) (1 / 2, 1 / 2, 1 / 2, 1 / 2)))"
    by (simp add: SE3_asSO3_def Manifold_def unit_half)
  from SE3_inverse_correct [OF u, of True] u show ?thesis
    by (simp add: SE3_asSO3_def Manifold_def SE3_rotation_def SE3_translation_def)
qed

text \<open>
  C6. For SE(3) elements \<open>a\<close> and \<open>b\<close> with quaternions of unit norm,
  \<^verbatim>\<open>a.compose(b)\<close> has the translation \<open>R\<^sub>a t\<^sub>b + t\<^sub>a\<close> and the rotation composed of
  the two rotations, so that its rotation matrix is \<open>R\<^sub>a R\<^sub>b\<close>. A requested Jacobian
  with respect to \<open>a\<close> is the inverse of \<^verbatim>\<open>b.adj()\<close>, as the library computes it; if
  that is an inverse, it equals \<^verbatim>\<open>b.inverse().adj()\<close>. A requested Jacobian with respect
  to \<open>b\<close> is the identity.
\<close>

theorem SE3_compose_correct:
  assumes "unit_quaternion (SE3_asSO3 a)" "unit_quaternion (SE3_asSO3 b)"
    and "Jacobian_mul (SE3_adj b) (matrix_inverse (SE3_adj b)) = Jacobian_Identity"
  shows "SE3_translation (fst (SE3_compose matrix_inverse a b J_mc_ma J_mc_mb))
           = vec_add (mat_vec (SE3_rotation a) (SE3_translation b)) (SE3_translation a) \<and>
         SE3_asSO3 (fst (SE3_compose matrix_inverse a b J_mc_ma J_mc_mb))
           = SO3_compose (SE3_asSO3 a) (SE3_asSO3 b) \<and>
         SE3_rotation (fst (SE3_compose matrix_inverse a b J_mc_ma J_mc_mb))
           = mat_mul (SE3_rotation a) (SE3_rotation b) \<and>
         unit_quaternion (SE3_asSO3 (fst (SE3_compose matrix_inverse a b J_mc_ma J_mc_mb))) \<and>
         fst (snd (SE3_compose matrix_inverse a b True J_mc_mb))
           = Some (matrix_inverse (SE3_adj b)) \<and>
         matrix_inverse (SE3_adj b) = SE3_adj (fst (SE3_inverse b False)) \<and>
         snd (snd (SE3_compose matrix_inverse a b J_mc_ma True)) = Some Jacobian_Identity \<and>
         fst (snd (SE3_compose matrix_inverse a b False J_mc_mb)) = None \<and>
         snd (snd (SE3_compose matrix_inverse a b J_mc_ma False)) = None"
proof -
  let ?c = "fst (SE3_compose matrix_inverse a b J_mc_ma J_mc_mb)"
  have "Jacobian_mul (SE3_adj (fst (SE3_inverse b False))) (SE3_adj b) = Jacobian_Identity"
    using assms(2) by (rule SE3_adj_inverse)
  then have inv: "matrix_inverse (SE3_adj b) = SE3_adj (fst (SE3_inverse b False))"
    using assms(3) by (rule right_inverse_unique)
  have t: "SE3_translation ?c
      = vec_add (mat_vec (SE3_rotation a) (SE3_translation b)) (SE3_translation a)"
    and q: "SE3_asSO3 ?c = SO3_compose (SE3_asSO3 a) (SE3_asSO3 b)"
    by (simp_all add: SE3_compose_def Manifold_def SE3_translation_def SE3_asSO3_def)
  have R: "SE3_rotation ?c = mat_mul (SE3_rotation a) (SE3_rotation b)"
    unfolding SE3_rotation_def q using assms(1,2) by (rule rotation_compose)
  have u: "unit_quaternion (SE3_asSO3 ?c)"
    unfolding q using assms(1,2) by (rule compose_unit)
  have J: "fst (snd (SE3_compose matrix_inverse a b True J_mc_mb))
      = Some (matrix_inverse (SE3_adj b))"
    "snd (snd (SE3_compose matrix_inverse a b J_mc_ma True)) = Some Jacobian_Identity"
    "fst (snd (SE3_compose matrix_inverse a b False J_mc_mb)) = None"
    "snd (snd (SE3_compose matrix_inverse a b J_mc_ma False)) = None"
    by (simp_all add: SE3_compose_def)
  from t q R u J inv show ?thesis
    by (intro conjI)
qed

theorem SE3_compose_correct_witness:
  "unit_quaternion (SE3_asSO3 (Manifold (1, 2, 3) (0, 0, 1, 0))) \<and>
   unit_quaternion (SE3_asSO3 (Manifold (4, 5, 6) (1 / 2, 1 / 2, 1 / 2, 1 / 2))) \<and>
   Jacobian_mul (SE3_adj (Manifold (4, 5, 6) (1 / 2, 1 / 2, 1 / 2, 1 / 2)))
     (Jacobian_inverse (SE3_adj (Manifold (4, 5, 6) (1 / 2, 1 / 2, 1 / 2, 1 / 2))))
     = Jacobian_Identity \<and>
   SE3_translation (fst (SE3_compose Jacobian_inverse (Manifold (1, 2, 3) (0, 0, 1, 0))
                           (Manifold (4, 5, 6) (1 / 2, 1 / 2, 1 / 2, 1 / 2)) True True))
     = (- 3, - 3, 9) \<and>
   fst (snd (SE3_compose Jacobian_inverse (Manifold (1, 2, 3) (0, 0, 1, 0))
               (Manifold (4, 5, 6) (1 / 2, 1 / 2, 1 / 2, 1 / 2)) True True))
     = Some (SE3_adj (fst (SE3_inverse (Manifold (4, 5, 6) (1 / 2, 1 / 2, 1 / 2, 1 / 2)) False))) \<and>
   snd (snd (SE3_compose Jacobian_inverse (Manifold (1, 2, 3) (0, 0, 1, 0))
               (Manifold (4, 5, 6) (1 / 2, 1 / 2, 1 / 2, 1 / 2)) True True))
     = Some Jacobian_Identity"
proof -
  let ?a = "Manifold (1, 2, 3) (0, 0, 1, 0)"
  let ?b = "Manifold (4, 5, 6) (1 / 2, 1 / 2, 1 / 2, 1 / 2)"
  have ua: "unit_quaternion (SE3_asSO3 ?a)"
    by (simp add: SE3_asSO3_def Manifold_def unit_quaternion_def)
  have ub: "unit_quaternion (SE3_asSO3 ?b)"
    by (simp add: SE3_asSO3_def Manifold_def unit_half)
  note c = SE3_compose_correct [of ?a ?b Jacobian_inverse True True, OF ua ub inverse_example]
  from c have "SE3_translation (fst (SE3_compose Jacobian_inverse ?a ?b True True))
      = vec_add (mat_vec (SE3_rotation ?a) (SE3_translation ?b)) (SE3_translation ?a)"
    by (rule conjunct1)
  then have "SE3_translation (fst (SE3_compose Jacobian_inverse ?a ?b True True)) = (- 3, - 3, 9)"
    by (simp add: SE3_rotation_def SE3_asSO3_def SE3_translation_def Manifold_def)
  moreover from c
  have "fst (snd (SE3_compose Jacobian_inverse ?a ?b True True))
      = Some (SE3_adj (fst (SE3_inverse ?b False)))"
    and "snd (snd (SE3_compose Jacobian_inverse ?a ?b True True)) = Some Jacobian_Identity"
    by simp_all
  ultimately show ?thesis
    using ua ub inverse_example by (intro conjI)
qed

text \<open>
  C8. For an SE(3) element \<open>g\<close> with a quaternion of unit norm,
  \<^verbatim>\<open>g.compose(g.inverse())\<close> is the identity over the reals: the translation is zero,
  the rotation is the identity quaternion and its matrix the identity matrix.
\<close>

theorem SE3_compose_inverse_identity:
  assumes "unit_quaternion (SE3_asSO3 g)"
  shows "fst (SE3_compose matrix_inverse g (fst (SE3_inverse g J_minv_m)) J_mc_ma J_mc_mb)
           = SE3_setIdentity g \<and>
         SE3_translation (SE3_setIdentity g) = (0, 0, 0) \<and>
         SE3_asSO3 (SE3_setIdentity g) = SO3_setIdentity \<and>
         SE3_rotation (SE3_setIdentity g) = mat_identity"
proof -
  let ?R = "SE3_rotation g" and ?t = "SE3_translation g"
  have "mat_vec ?R (mat_vec (mat_transpose ?R) ?t) = ?t"
    using assms by (simp add: SE3_rotation_def rotation_orthogonal flip: mat_vec_mul)
  then have "vec_add (mat_vec ?R (vec_neg (mat_vec (mat_transpose ?R) ?t))) ?t = (0, 0, 0)"
    by (simp add: mat_vec_vec_neg)
  moreover have "SO3_compose (SE3_asSO3 g) (SO3_inverse (SE3_asSO3 g)) = SO3_setIdentity"
    using assms by (rule compose_inverse)
  ultimately have "fst (SE3_compose matrix_inverse g (fst (SE3_inverse g J_minv_m)) J_mc_ma J_mc_mb)
      = SE3_setIdentity g"
    by (simp add: SE3_compose_def SE3_inverse_parts Manifold_def SE3_setIdentity_def)
  then show ?thesis
    by (simp add: SE3_setIdentity_def SE3_translation_def SE3_asSO3_def SE3_rotation_def
        SO3_setIdentity_def mat_identity_def)
qed

theorem SE3_compose_inverse_identity_witness:
  "unit_quaternion (SE3_asSO3 (Manifold (1, 2, 3) (1 / 2, 1 / 2, 1 / 2, 1 / 2))) \<and>
   fst (SE3_compose Jacobian_inverse (Manifold (1, 2, 3) (1 / 2, 1 / 2, 1 / 2, 1 / 2))
          (fst (SE3_inverse (Manifold (1, 2, 3) (1 / 2, 1 / 2, 1 / 2, 1 / 2)) False)) False False)
     = Manifold (0, 0, 0) (0, 0, 0, 1)"
proof -
  have u: "unit_quaternion (SE3_asSO3 (Manifold (1, 2, 3) (1 / 2, 1 / 2, 1 / 2, 1 / 2)))"
    by (simp add: SE3_asSO3_def Manifold_def unit_half)
  from SE3_compose_inverse_identity [OF u, of Jacobian_inverse False False False] u show ?thesis
    by (simp add: SE3_setIdentity_def Manifold_def SO3_setIdentity_def)
qed

end
